theory Spec2Isabelle
  imports Complex_Main
begin

section \<open>Python values, exceptions and update events\<close>

text \<open>
  The controller of \<^verbatim>\<open>fm_dx_client/__main__.py\<close> is embedded function by function.
  Exceptions are values of \<open>pyerr\<close>; a call that may raise returns \<open>pyerr + 'a\<close>.
  Strings are lists of 8-bit characters, read as the code points below 256.
\<close>

datatype pyerr =
    ValueError | TypeError | OverflowError | AttributeError | JSONDecodeError
  | QueueFull | QueueEmpty

text \<open>
  A Python \<^verbatim>\<open>float\<close>: a finite double \<open>m * 2 ^ e\<close> (not normalised; the sign of
  zero is not kept, nothing below observes it), an infinity (\<open>True\<close> is negative), or NaN.
\<close>

datatype pyfloat = Finite int int | Infinity bool | NaN

text \<open>
  What \<^verbatim>\<open>json.loads\<close> returns, and the \<^verbatim>\<open>None\<close> of a missing key. \<open>PDict\<close> holds the
  items of a dict, each key once.
\<close>

datatype pyval =
    PNone
  | PBool bool
  | PInt int
  | PFloat pyfloat
  | PStr string
  | PList "pyval list"
  | PDict "(string \<times> pyval) list"

section \<open>Double arithmetic used by the frequency parser\<close>

fun bits :: "nat \<Rightarrow> nat" where
  "bits n = (if n = 0 then 0 else Suc (bits (n div 2)))"

declare bits.simps [simp del]

text \<open>The quotient \<open>a / b\<close> rounded to the nearest integer, ties to even.\<close>

definition div_half_even :: "nat \<Rightarrow> nat \<Rightarrow> nat" where
  "div_half_even a b =
     (let q = a div b; r = a mod b
      in if 2 * r < b then q
         else if b < 2 * r then q + 1
         else if even q then q else q + 1)"

text \<open>
  The double nearest to the rational \<open>a / b\<close> (\<open>0 < b\<close>), ties to even: 53 bits of
  mantissa, subnormals below \<open>2 ^ -1022\<close>, infinity from \<open>2 ^ 1024\<close> on.
\<close>

definition floor_log2 :: "nat \<Rightarrow> nat \<Rightarrow> int" where
  "floor_log2 a b =
     (let e0 = int (bits a) - int (bits b);
          ge = (if 0 \<le> e0 then b * 2 ^ nat e0 \<le> a else b \<le> a * 2 ^ nat (- e0))
      in if ge then e0 else e0 - 1)"

definition nearest_double :: "bool \<Rightarrow> nat \<Rightarrow> nat \<Rightarrow> pyfloat" where
  "nearest_double neg a b =
     (if a = 0 then Finite 0 0
      else
        let e = max (floor_log2 a b - 52) (- 1074);
            m = (if 0 \<le> e then div_half_even a (b * 2 ^ nat e)
                 else div_half_even (a * 2 ^ nat (- e)) b)
        in if 971 < e \<or> (e = 971 \<and> 2 ^ 53 \<le> m) then Infinity neg
           else Finite (if neg then - int m else int m) e)"

definition float_of_int :: "int \<Rightarrow> pyfloat" where
  "float_of_int i = nearest_double (i < 0) (nat \<bar>i\<bar>) 1"

text \<open>\<^verbatim>\<open>x * y\<close> on floats: the exact product, rounded once.\<close>

fun fmul :: "pyfloat \<Rightarrow> pyfloat \<Rightarrow> pyfloat" where
  "fmul (Finite m1 e1) (Finite m2 e2) =
     (let neg = (m1 < 0) \<noteq> (m2 < 0); a = nat (\<bar>m1\<bar> * \<bar>m2\<bar>); e = e1 + e2
      in if 0 \<le> e then nearest_double neg (a * 2 ^ nat e) 1
         else nearest_double neg a (2 ^ nat (- e)))"
| "fmul (Finite m e) (Infinity s) = (if m = 0 then NaN else Infinity ((m < 0) \<noteq> s))"
| "fmul (Infinity s) (Finite m e) = (if m = 0 then NaN else Infinity (s \<noteq> (m < 0)))"
| "fmul (Infinity s) (Infinity t) = Infinity (s \<noteq> t)"
| "fmul NaN y = NaN"
| "fmul x NaN = NaN"

text \<open>\<^verbatim>\<open>x <= y\<close> on floats; every comparison with NaN is false.\<close>

fun fle :: "pyfloat \<Rightarrow> pyfloat \<Rightarrow> bool" where
  "fle (Finite m1 e1) (Finite m2 e2) =
     (let e = min e1 e2 in m1 * 2 ^ nat (e1 - e) \<le> m2 * 2 ^ nat (e2 - e))"
| "fle (Finite m e) (Infinity s) = (\<not> s)"
| "fle (Infinity s) (Finite m e) = s"
| "fle (Infinity s) (Infinity t) = (s \<or> \<not> t)"
| "fle NaN y = False"
| "fle x NaN = False"

text \<open>\<^verbatim>\<open>int(x)\<close>: truncation towards zero; infinities and NaN raise.\<close>

fun py_int :: "pyfloat \<Rightarrow> pyerr + int" where
  "py_int (Finite m e) =
     Inr (if 0 \<le> e then m * 2 ^ nat e
          else if 0 \<le> m then m div 2 ^ nat (- e)
          else - ((- m) div 2 ^ nat (- e)))"
| "py_int (Infinity s) = Inl OverflowError"
| "py_int NaN = Inl ValueError"

section \<open>\<^verbatim>\<open>float(str)\<close>\<close>

definition is_digit :: "char \<Rightarrow> bool" where
  "is_digit c = (c \<in> set ''0123456789'')"

definition digit_val :: "char \<Rightarrow> nat" where
  "digit_val c = of_char c - 48"

definition digits_val :: "string \<Rightarrow> nat" where
  "digits_val ds = foldl (\<lambda>n c. 10 * n + digit_val c) 0 ds"

text \<open>
  The characters the interpreter strips: ASCII white space, and the two white-space code
  points between 127 and 255 (NEL and NBSP), which it first turns into a space.
\<close>

definition py_isspace :: "char \<Rightarrow> bool" where
  "py_isspace c =
     (c \<in> set [CHR '' '', CHR 0x09, CHR 0x0A, CHR 0x0B, CHR 0x0C, CHR 0x0D, CHR 0x85, CHR 0xA0])"

definition strip :: "string \<Rightarrow> string" where
  "strip s = rev (dropWhile py_isspace (rev (dropWhile py_isspace s)))"

text \<open>
  An underscore is allowed only between two digits; \<open>prev\<close> is the character before.
\<close>

fun underscores_ok :: "char \<Rightarrow> string \<Rightarrow> bool" where
  "underscores_ok prev [] = (prev \<noteq> CHR ''_'')"
| "underscores_ok prev (c # cs) =
     (if c = CHR ''_'' then is_digit prev \<and> underscores_ok c cs
      else if prev = CHR ''_'' then is_digit c \<and> underscores_ok c cs
      else underscores_ok c cs)"

definition lower_ascii :: "char \<Rightarrow> char" where
  "lower_ascii c =
     (if 65 \<le> (of_char c :: nat) \<and> (of_char c :: nat) \<le> 90
      then char_of ((of_char c :: nat) + 32) else c)"

definition exp_digits :: "string \<Rightarrow> int option" where
  "exp_digits ds =
     (if ds \<noteq> [] \<and> list_all is_digit ds then Some (int (digits_val ds)) else None)"

fun parse_exponent :: "string \<Rightarrow> int option" where
  "parse_exponent [] = Some 0"
| "parse_exponent (c # t) =
     (if c = CHR ''e'' \<or> c = CHR ''E'' then
        (case t of
           [] \<Rightarrow> None
         | s # ds \<Rightarrow>
             if s = CHR ''+'' then exp_digits ds
             else if s = CHR ''-'' then map_option uminus (exp_digits ds)
             else exp_digits t)
      else None)"

text \<open>
  \<open>[digits] . digits [exponent]\<close> or \<open>digits [.] [exponent]\<close>: the digits as a number
  \<open>n\<close> and the power of ten \<open>k\<close>, for the value \<open>n * 10 ^ k\<close>.
\<close>

definition parse_decimal :: "string \<Rightarrow> (nat \<times> int) option" where
  "parse_decimal s =
     (let ip = takeWhile is_digit s;
          r1 = dropWhile is_digit s;
          fp = (case r1 of [] \<Rightarrow> []
                | c # t \<Rightarrow> if c = CHR ''.'' then takeWhile is_digit t else []);
          r2 = (case r1 of [] \<Rightarrow> []
                | c # t \<Rightarrow> if c = CHR ''.'' then dropWhile is_digit t else r1)
      in if ip = [] \<and> fp = [] then None
         else (case parse_exponent r2 of
                 None \<Rightarrow> None
               | Some ex \<Rightarrow> Some (digits_val (ip @ fp), ex - int (length fp))))"

definition decimal_to_double :: "bool \<Rightarrow> nat \<Rightarrow> int \<Rightarrow> pyfloat" where
  "decimal_to_double neg n k =
     (if 0 \<le> k then nearest_double neg (n * 10 ^ nat k) 1
      else nearest_double neg n (10 ^ nat (- k)))"

definition parse_abs :: "bool \<Rightarrow> string \<Rightarrow> pyfloat option" where
  "parse_abs neg s =
     (let l = map lower_ascii s
      in if l = ''inf'' \<or> l = ''infinity'' then Some (Infinity neg)
         else if l = ''nan'' then Some NaN
         else (case parse_decimal s of
                 None \<Rightarrow> None
               | Some (n, k) \<Rightarrow> Some (decimal_to_double neg n k)))"

definition parse_signed :: "string \<Rightarrow> pyfloat option" where
  "parse_signed s =
     (case s of
        [] \<Rightarrow> None
      | c # t \<Rightarrow>
          if c = CHR ''-'' then parse_abs True t
          else if c = CHR ''+'' then parse_abs False t
          else parse_abs False s)"

text \<open>
  \<^verbatim>\<open>float(s)\<close> for a string: underscores checked and removed, white space stripped at
  both ends, then the whole rest must be a float literal; \<^verbatim>\<open>ValueError\<close> otherwise.
\<close>

definition py_float_of_str :: "string \<Rightarrow> pyerr + pyfloat" where
  "py_float_of_str s =
     (if \<not> underscores_ok (CHR 0x00) s then Inl ValueError
      else (case parse_signed (strip (filter (\<lambda>c. c \<noteq> CHR ''_'') s)) of
              None \<Rightarrow> Inl ValueError
            | Some x \<Rightarrow> Inr x))"

section \<open>The frequency parser \<^verbatim>\<open>mhz_to_khz\<close>\<close>

definition MIN_FREQ_MHZ :: pyfloat where
  "MIN_FREQ_MHZ = Finite 175 (- 1)"

definition MAX_FREQ_MHZ :: pyfloat where
  "MAX_FREQ_MHZ = Finite 108 0"

text \<open>\<^verbatim>\<open>mhz_str.replace(",", ".")\<close>\<close>

definition replace_comma :: "string \<Rightarrow> string" where
  "replace_comma s = map (\<lambda>c. if c = CHR '','' then CHR ''.'' else c) s"

text \<open>
  \<^verbatim>\<open>mhz_to_khz\<close>: \<open>Inr None\<close> is the returned \<^verbatim>\<open>None\<close>, \<open>Inl e\<close> an exception that
  leaves the function. Only \<^verbatim>\<open>ValueError\<close> and \<^verbatim>\<open>TypeError\<close> are caught.
\<close>

definition mhz_to_khz :: "pyval \<Rightarrow> pyerr + int option" where
  "mhz_to_khz mhz_str =
     (case mhz_str of
        PStr s \<Rightarrow>
          (case py_float_of_str (replace_comma s) of
             Inl e \<Rightarrow> (if e = ValueError \<or> e = TypeError then Inr None else Inl e)
           | Inr mhz \<Rightarrow>
               if fle MIN_FREQ_MHZ mhz \<and> fle mhz MAX_FREQ_MHZ then
                 (case py_int (fmul mhz (float_of_int 1000)) of
                    Inl e \<Rightarrow> (if e = ValueError \<or> e = TypeError then Inr None else Inl e)
                  | Inr khz \<Rightarrow> Inr (Some khz))
               else Inr None)
      | _ \<Rightarrow> Inr None)"

subsection \<open>Facts about the parser\<close>

lemma takeWhile_no_digit:
  "list_all (\<lambda>c. \<not> is_digit c) s \<Longrightarrow> takeWhile is_digit s = []"
  by (cases s) auto

lemma dropWhile_no_digit:
  "list_all (\<lambda>c. \<not> is_digit c) s \<Longrightarrow> dropWhile is_digit s = s"
  by (cases s) auto

lemma parse_decimal_no_digit:
  "list_all (\<lambda>c. \<not> is_digit c) s \<Longrightarrow> parse_decimal s = None"
  by (cases s) (auto simp: parse_decimal_def takeWhile_no_digit dropWhile_no_digit)

lemma parse_abs_no_digit:
  "list_all (\<lambda>c. \<not> is_digit c) s \<Longrightarrow>
     parse_abs neg s = None \<or> parse_abs neg s = Some (Infinity neg) \<or> parse_abs neg s = Some NaN"
  by (simp add: parse_abs_def parse_decimal_no_digit Let_def)

lemma parse_signed_no_digit:
  "list_all (\<lambda>c. \<not> is_digit c) s \<Longrightarrow>
     parse_signed s = None \<or> (\<exists>b. parse_signed s = Some (Infinity b)) \<or> parse_signed s = Some NaN"
  using parse_abs_no_digit [of s False] parse_abs_no_digit [of "tl s" True]
    parse_abs_no_digit [of "tl s" False]
  by (cases s) (auto simp: parse_signed_def)

lemma strip_no_digit:
  "list_all (\<lambda>c. \<not> is_digit c) s \<Longrightarrow> list_all (\<lambda>c. \<not> is_digit c) (strip s)"
  unfolding strip_def list_all_iff
  by (metis set_dropWhileD set_rev)

lemma py_float_no_digit:
  assumes "list_all (\<lambda>c. \<not> is_digit c) s"
  shows "py_float_of_str s = Inl ValueError \<or> (\<exists>b. py_float_of_str s = Inr (Infinity b))
       \<or> py_float_of_str s = Inr NaN"
proof -
  from assms have "list_all (\<lambda>c. \<not> is_digit c) (strip (filter (\<lambda>c. c \<noteq> CHR ''_'') s))"
    by (intro strip_no_digit) (simp add: list_all_iff)
  from parse_signed_no_digit [OF this] show ?thesis
    by (auto simp: py_float_of_str_def)
qed

lemma replace_comma_no_digit:
  "list_all (\<lambda>c. \<not> is_digit c) s \<Longrightarrow> list_all (\<lambda>c. \<not> is_digit c) (replace_comma s)"
  by (induction s) (auto simp: replace_comma_def is_digit_def)

lemma mhz_to_khz_no_digit:
  "list_all (\<lambda>c. \<not> is_digit c) s \<Longrightarrow> mhz_to_khz (PStr s) = Inr None"
  using py_float_no_digit [OF replace_comma_no_digit, of s]
  by (auto simp: mhz_to_khz_def MIN_FREQ_MHZ_def MAX_FREQ_MHZ_def)

lemma mhz_to_khz_float_error:
  "py_float_of_str (replace_comma s) = Inl e \<Longrightarrow> mhz_to_khz (PStr s) = Inr None"
  by (auto simp: mhz_to_khz_def py_float_of_str_def split: if_splits option.splits)

lemmas parser_eval =
  mhz_to_khz_def py_float_of_str_def replace_comma_def strip_def py_isspace_def
  parse_signed_def parse_abs_def parse_decimal_def is_digit_def digits_val_def digit_val_def
  lower_ascii_def decimal_to_double_def nearest_double_def floor_log2_def bits.simps
  div_half_even_def float_of_int_def MIN_FREQ_MHZ_def MAX_FREQ_MHZ_def exp_digits_def Let_def

lemma mhz_to_khz_97_dot_3: "mhz_to_khz (PStr ''97.3'') = Inr (Some 97300)"
  by (simp add: parser_eval)

lemma mhz_to_khz_97_comma_3: "mhz_to_khz (PStr ''97,3'') = Inr (Some 97300)"
  by (simp add: parser_eval)

lemma mhz_to_khz_86_9: "mhz_to_khz (PStr ''86.9'') = Inr None"
  by (simp add: parser_eval)

lemma mhz_to_khz_108_1: "mhz_to_khz (PStr ''108.1'') = Inr None"
  by (simp add: parser_eval)

text \<open>
  C2. The frequency parser maps \<open>97.3\<close> and \<open>97,3\<close> to 97300 kHz, returns \<^verbatim>\<open>None\<close>
  for \<open>86.9\<close> and \<open>108.1\<close>, which lie outside the band, and returns \<^verbatim>\<open>None\<close> for every
  non-numeric string: every string that \<^verbatim>\<open>float\<close> refuses, and every string without a
  decimal digit (among them \<open>inf\<close> and \<open>nan\<close>, which \<^verbatim>\<open>float\<close> accepts).
\<close>

theorem mhz_to_khz_examples_and_non_numeric:
  "mhz_to_khz (PStr ''97.3'') = Inr (Some 97300) \<and>
   mhz_to_khz (PStr ''97,3'') = Inr (Some 97300) \<and>
   mhz_to_khz (PStr ''86.9'') = Inr None \<and>
   mhz_to_khz (PStr ''108.1'') = Inr None \<and>
   (\<forall>s. list_all (\<lambda>c. \<not> is_digit c) s \<longrightarrow> mhz_to_khz (PStr s) = Inr None) \<and>
   (\<forall>s e. py_float_of_str (replace_comma s) = Inl e \<longrightarrow> mhz_to_khz (PStr s) = Inr None)"
  using mhz_to_khz_97_dot_3 mhz_to_khz_97_comma_3 mhz_to_khz_86_9 mhz_to_khz_108_1
    mhz_to_khz_no_digit mhz_to_khz_float_error
  by blast

theorem mhz_to_khz_examples_and_non_numeric_witness:
  "list_all (\<lambda>c. \<not> is_digit c) ''n/a'' \<and> mhz_to_khz (PStr ''n/a'') = Inr None \<and>
   py_float_of_str (replace_comma ''9x'') = Inl ValueError \<and> mhz_to_khz (PStr ''9x'') = Inr None"
proof -
  have a: "list_all (\<lambda>c. \<not> is_digit c) ''n/a''" by (simp add: is_digit_def)
  have b: "py_float_of_str (replace_comma ''9x'') = Inl ValueError" by (simp add: parser_eval)
  from mhz_to_khz_examples_and_non_numeric a b show ?thesis by blast
qed

lemma bits_le_iff: "bits n \<le> k \<longleftrightarrow> n < 2 ^ k"
proof (induction n arbitrary: k rule: bits.induct)
  case (1 n)
  show ?case
  proof (cases "n = 0")
    case True
    then show ?thesis by (simp add: bits.simps)
  next
    case False
    show ?thesis
    proof (cases k)
      case 0
      with False show ?thesis by (simp add: bits.simps)
    next
      case (Suc j)
      have "bits n \<le> Suc j \<longleftrightarrow> bits (n div 2) \<le> j"
        using False by (subst bits.simps) simp
      also have "\<dots> \<longleftrightarrow> n div 2 < 2 ^ j" using 1 False by simp
      also have "\<dots> \<longleftrightarrow> n < 2 ^ Suc j" by auto
      finally show ?thesis using Suc by simp
    qed
  qed
qed

lemma bits_bound:
  assumes "a < 2 ^ k * b"
  shows "bits a \<le> bits b + k"
proof -
  have "b < 2 ^ bits b" using bits_le_iff [of b "bits b"] by simp
  then have "2 ^ k * b < 2 ^ k * 2 ^ bits b" by simp
  with assms have "a < 2 ^ k * 2 ^ bits b" by (rule less_trans)
  then have "a < 2 ^ (bits b + k)" by (simp add: power_add mult.commute)
  then show ?thesis by (simp add: bits_le_iff)
qed

lemma floor_log2_le: "floor_log2 a b \<le> int (bits a) - int (bits b)"
  by (simp add: floor_log2_def Let_def)

lemma nearest_double_finite:
  assumes "a < 2 ^ 1000 * b"
  shows "\<exists>m e. nearest_double neg a b = Finite m e"
proof -
  have "bits a \<le> bits b + 1000" using bits_bound [OF assms] .
  then have "floor_log2 a b \<le> 1000" using floor_log2_le [of a b] by linarith
  then have "max (floor_log2 a b - 52) (- 1074) < 971" by simp
  then show ?thesis by (auto simp: nearest_double_def Let_def)
qed

lemma float_1000: "float_of_int 1000 = Finite 8796093022208000 (- 43)"
  by (simp add: float_of_int_def nearest_double_def floor_log2_def bits.simps
      div_half_even_def Let_def)

text \<open>Inside the band the product with 1000 cannot overflow, so \<^verbatim>\<open>int\<close> cannot raise.\<close>

lemma in_band_product_finite:
  assumes lo: "fle MIN_FREQ_MHZ (Finite m e)" and hi: "fle (Finite m e) MAX_FREQ_MHZ"
  shows "\<exists>m' e'. fmul (Finite m e) (float_of_int 1000) = Finite m' e'"
proof -
  have "(0::int) < 175 * 2 ^ nat (- 1 - min (- 1) e)" by simp
  also have "\<dots> \<le> m * 2 ^ nat (e - min (- 1) e)"
    using lo by (simp add: MIN_FREQ_MHZ_def Let_def)
  finally have mpos: "0 < m" by (simp add: zero_less_mult_iff)
  have up: "m * 2 ^ nat (e - min e 0) \<le> 108 * 2 ^ nat (0 - min e 0)"
    using hi by (simp add: MAX_FREQ_MHZ_def Let_def)
  have small: "e < 43"
  proof (rule ccontr)
    assume "\<not> e < 43"
    then have e: "43 \<le> e" by simp
    then have "m * 2 ^ nat e \<le> 108" using up by (simp add: min_def)
    moreover have "(2::int) ^ 43 \<le> 2 ^ nat e" using e by (intro power_increasing) auto
    moreover have "(1::int) * 2 ^ nat e \<le> m * 2 ^ nat e"
      using mpos by (intro mult_right_mono) auto
    ultimately show False by simp
  qed
  have bound: "m * 8796093022208000 < 2 ^ 1000 * 2 ^ nat (43 - e)"
  proof (cases "0 \<le> e")
    case True
    then have "min e 0 = 0" by simp
    then have "m * 2 ^ nat e \<le> 108" using up by simp
    moreover have "m * 1 \<le> m * 2 ^ nat e" using mpos by (intro mult_left_mono) auto
    ultimately have "m \<le> 108" by simp
    then have "m * 8796093022208000 < 2 ^ 1000 * 1" by simp
    also have "\<dots> \<le> 2 ^ 1000 * 2 ^ nat (43 - e)" by (intro mult_left_mono) auto
    finally show ?thesis .
  next
    case False
    then have "min e 0 = e" by simp
    then have m: "m \<le> 108 * 2 ^ nat (- e)" using up by simp
    have split: "nat (43 - e) = 43 + nat (- e)" using False by simp
    have "m * 8796093022208000 \<le> (108 * 2 ^ nat (- e)) * 8796093022208000"
      using m by (intro mult_right_mono) auto
    also have "\<dots> < 2 ^ 1000 * 2 ^ nat (43 - e)"
      unfolding split power_add by simp
    finally show ?thesis .
  qed
  have "nat (m * 8796093022208000) < 2 ^ 1000 * 2 ^ nat (43 - e)"
    using bound mpos by (simp add: nat_less_iff)
  from nearest_double_finite [OF this] show ?thesis
    using small mpos by (simp add: float_1000 Let_def)
qed

lemma mhz_to_khz_total: "\<exists>r. mhz_to_khz v = Inr r"
proof (cases v)
  case (PStr s)
  show ?thesis
  proof (cases "py_float_of_str (replace_comma s)")
    case (Inl e)
    then show ?thesis using PStr mhz_to_khz_float_error by blast
  next
    case (Inr mhz)
    show ?thesis
    proof (cases "fle MIN_FREQ_MHZ mhz \<and> fle mhz MAX_FREQ_MHZ")
      case False
      then show ?thesis using PStr Inr by (auto simp: mhz_to_khz_def)
    next
      case True
      then obtain m e where fin: "mhz = Finite m e"
        by (cases mhz) (auto simp: MIN_FREQ_MHZ_def MAX_FREQ_MHZ_def)
      from in_band_product_finite True fin
      obtain m' e' where "fmul mhz (float_of_int 1000) = Finite m' e'" by blast
      then show ?thesis using PStr Inr True by (simp add: mhz_to_khz_def)
    qed
  qed
qed (simp_all add: mhz_to_khz_def)

lemma mhz_to_khz_not_str: "(\<forall>s. v \<noteq> PStr s) \<Longrightarrow> mhz_to_khz v = Inr None"
  by (cases v) (simp_all add: mhz_to_khz_def)

section \<open>The controller's state\<close>

text \<open>
  An update is the tuple \<^verbatim>\<open>(message_type, data)\<close>. The update queue is a
  \<^verbatim>\<open>queue.Queue\<close>: \<open>uq_maxsize = 0\<close> is unbounded, as both front ends create it.
\<close>

type_synonym update = "string \<times> pyval"

record uqueue =
  uq_items :: "update list"
  uq_maxsize :: nat

text \<open>
  A client sink is an \<^verbatim>\<open>asyncio.Queue\<close> of chunks; \<open>None\<close> is the end-of-stream marker.
  \<open>aq_unfinished\<close> is the counter behind \<^verbatim>\<open>task_done\<close>.
\<close>

record aqueue =
  aq_items :: "string option list"
  aq_maxsize :: nat
  aq_unfinished :: nat

record websocket =
  ws_id :: nat
  close_code :: "int option"

text \<open>A subprocess object as the controller reads it.\<close>

record proc =
  pid :: nat
  returncode :: "int option"
  stdin_closing :: bool

text \<open>
  What the controller does to the outside, in order: to a process (named by its pid),
  a call of \<^verbatim>\<open>websockets.connect\<close> on a URI, and a task created by the supervisor (by
  its name).
\<close>

datatype effect =
    Spawn nat
  | CloseStdin nat
  | Terminate nat
  | Kill nat
  | Connect string
  | CreateTask string

record controller =
  audio_uri :: string
  text_uri :: string
  command_queue :: "pyval list"
  update_queue :: "uqueue option"
  stream_enabled :: bool
  is_restream_only :: bool
  stream_port :: int
  app_running :: bool
  text_ws_for_commands :: "websocket option"
  ffplay_proc :: "proc option"
  ffmpeg_proc :: "proc option"
  aac_clients :: "aqueue list"
  loop_running :: bool
  thread_alive :: bool
  loop_stop_requested :: bool
  ws_send_calls :: "string list"
  effect_log :: "effect list"

text \<open>
  \<^verbatim>\<open>__init__\<close> (with the default stream port) followed by \<^verbatim>\<open>start\<close>, which sets the
  running flag and starts the thread, once the thread has entered \<^verbatim>\<open>run_forever\<close>.
  \<open>loop_running\<close> is \<^verbatim>\<open>self.loop and self.loop.is_running()\<close>, \<open>thread_alive\<close> says
  that the controller thread is alive (what \<^verbatim>\<open>self.thread.is_alive()\<close> reads in
  \<^verbatim>\<open>stop\<close>), \<open>loop_stop_requested\<close> says that \<^verbatim>\<open>loop.stop\<close> has been scheduled. \<open>ws_send_calls\<close> (the frames handed to \<^verbatim>\<open>ws.send\<close>)
  and \<open>effect_log\<close> record what was done; the code does not read them.
\<close>

definition init_controller ::
  "string \<Rightarrow> string \<Rightarrow> pyval list \<Rightarrow> uqueue option \<Rightarrow> bool \<Rightarrow> bool \<Rightarrow> bool \<Rightarrow> controller" where
  "init_controller a_uri t_uri cq uq stream restream aiohttp_available =
     \<lparr> audio_uri = a_uri, text_uri = t_uri, command_queue = cq, update_queue = uq,
       stream_enabled = (stream \<and> aiohttp_available), is_restream_only = restream,
       stream_port = 8080, app_running = True, text_ws_for_commands = None,
       ffplay_proc = None, ffmpeg_proc = None, aac_clients = [],
       loop_running = True, thread_alive = True,
       loop_stop_requested = False, ws_send_calls = [], effect_log = [] \<rparr>"

definition uq_full :: "uqueue \<Rightarrow> bool" where
  "uq_full q = (0 < uq_maxsize q \<and> uq_maxsize q \<le> length (uq_items q))"

text \<open>
  \<^verbatim>\<open>put_update\<close>: \<^verbatim>\<open>put_nowait\<close>, and the update is dropped when the queue is full.
\<close>

definition put_update :: "string \<Rightarrow> pyval \<Rightarrow> controller \<Rightarrow> controller" where
  "put_update message_type data c =
     (case update_queue c of
        None \<Rightarrow> c
      | Some q \<Rightarrow>
          if uq_full q then c
          else c\<lparr>update_queue := Some (q\<lparr>uq_items := uq_items q @ [(message_type, data)]\<rparr>)\<rparr>)"

text \<open>The updates on the queue (none when there is no queue).\<close>

definition updates :: "controller \<Rightarrow> update list" where
  "updates c = (case update_queue c of None \<Rightarrow> [] | Some q \<Rightarrow> uq_items q)"

text \<open>The queue takes every update: it exists and is unbounded.\<close>

definition unbounded_updates :: "controller \<Rightarrow> bool" where
  "unbounded_updates c = (case update_queue c of None \<Rightarrow> False | Some q \<Rightarrow> uq_maxsize q = 0)"

definition sq :: string where
  "sq = [CHR 0x27]"

definition type_name :: "pyval \<Rightarrow> string" where
  "type_name v =
     (case v of PNone \<Rightarrow> ''NoneType'' | PBool b \<Rightarrow> ''bool'' | PInt i \<Rightarrow> ''int''
      | PFloat f \<Rightarrow> ''float'' | PStr s \<Rightarrow> ''str'' | PList l \<Rightarrow> ''list'' | PDict d \<Rightarrow> ''dict'')"

definition no_attribute :: "pyval \<Rightarrow> string \<Rightarrow> string" where
  "no_attribute v a = sq @ type_name v @ sq @ '' object has no attribute '' @ sq @ a @ sq"

section \<open>The metadata receive loop, one message\<close>

text \<open>\<^verbatim>\<open>data.get("freq")\<close>: only a dict has \<^verbatim>\<open>get\<close>.\<close>

definition py_get :: "pyval \<Rightarrow> string \<Rightarrow> (pyerr \<times> string) + pyval" where
  "py_get data k =
     (case data of
        PDict items \<Rightarrow> Inr (case map_of items k of None \<Rightarrow> PNone | Some v \<Rightarrow> v)
      | _ \<Rightarrow> Inl (AttributeError, no_attribute data ''get''))"

definition err_text :: "pyerr \<Rightarrow> string" where
  "err_text e =
     (if e = OverflowError then ''cannot convert float infinity to integer''
      else ''cannot convert float NaN to integer'')"

text \<open>
  The body of \<^verbatim>\<open>async for message in websocket\<close> in \<^verbatim>\<open>_handle_text_websocket\<close>, after
  the running check. \<open>loaded\<close> is what \<^verbatim>\<open>json.loads(message)\<close> did: the value, or the
  exception with its text.
\<close>

definition process_text_message :: "(pyerr \<times> string) + pyval \<Rightarrow> controller \<Rightarrow> controller" where
  "process_text_message loaded c =
     (case loaded of
        Inl (e, msg) \<Rightarrow>
          if e = JSONDecodeError then put_update ''error'' (PStr ''Invalid JSON received (Text WS).'') c
          else put_update ''error'' (PStr (''Processing text data failed: '' @ msg)) c
      | Inr data \<Rightarrow>
          let c1 = put_update ''data'' data c
          in (case py_get data ''freq'' of
                Inl (e, msg) \<Rightarrow>
                  put_update ''error'' (PStr (''Processing text data failed: '' @ msg)) c1
              | Inr freq \<Rightarrow>
                  (case mhz_to_khz freq of
                     Inl e \<Rightarrow>
                       put_update ''error'' (PStr (''Processing text data failed: '' @ err_text e)) c1
                   | Inr None \<Rightarrow> c1
                   | Inr (Some data_freq_khz) \<Rightarrow>
                       put_update ''current_freq'' (PInt data_freq_khz) c1)))"

lemma updates_put_update:
  "unbounded_updates c \<Longrightarrow> updates (put_update t d c) = updates c @ [(t, d)]"
  by (auto simp: unbounded_updates_def updates_def put_update_def uq_full_def split: option.splits)

lemma unbounded_put_update [simp]:
  "unbounded_updates (put_update t d c) = unbounded_updates c"
  by (auto simp: unbounded_updates_def put_update_def uq_full_def split: option.splits)

lemma process_record_without_freq:
  assumes "unbounded_updates c"
    and "map_of items ''freq'' = None \<or> (\<exists>v. map_of items ''freq'' = Some v \<and> (\<forall>s. v \<noteq> PStr s))"
  shows "updates (process_text_message (Inr (PDict items)) c) = updates c @ [(''data'', PDict items)]"
proof -
  obtain v where v: "py_get (PDict items) ''freq'' = Inr v" "\<forall>s. v \<noteq> PStr s"
    using assms(2) by (auto simp: py_get_def)
  then have "mhz_to_khz v = Inr None" by (simp add: mhz_to_khz_not_str)
  then show ?thesis
    using v assms(1) by (simp add: process_text_message_def Let_def updates_put_update)
qed

text \<open>
  C10. The frequency parser never raises, and returns \<^verbatim>\<open>None\<close> for every input that
  is not a string (the \<^verbatim>\<open>None\<close> of a missing key and JSON numbers among them). So, with
  an update queue that takes every update, a parsed record whose \<^verbatim>\<open>freq\<close> field is missing
  or not a string puts its \<^verbatim>\<open>data\<close> update and nothing else: no \<^verbatim>\<open>current_freq\<close>.
\<close>

theorem mhz_to_khz_total_and_record_without_freq:
  "(\<forall>v. \<exists>r. mhz_to_khz v = Inr r) \<and>
   (\<forall>v. (\<forall>s. v \<noteq> PStr s) \<longrightarrow> mhz_to_khz v = Inr None) \<and>
   mhz_to_khz PNone = Inr None \<and>
   (\<forall>i. mhz_to_khz (PInt i) = Inr None) \<and>
   (\<forall>f. mhz_to_khz (PFloat f) = Inr None) \<and>
   (\<forall>c items. unbounded_updates c \<and>
       (map_of items ''freq'' = None \<or>
        (\<exists>v. map_of items ''freq'' = Some v \<and> (\<forall>s. v \<noteq> PStr s))) \<longrightarrow>
       updates (process_text_message (Inr (PDict items)) c)
         = updates c @ [(''data'', PDict items)])"
  using mhz_to_khz_total mhz_to_khz_not_str process_record_without_freq
  by (auto simp: mhz_to_khz_def)

theorem mhz_to_khz_total_and_record_without_freq_witness:
  "unbounded_updates
     (init_controller ''ws://h/audio'' ''ws://h/text'' [] (Some \<lparr>uq_items = [], uq_maxsize = 0\<rparr>)
        False False False) \<and>
   map_of [(''ps'', PStr ''RADIO1'')] ''freq'' = None \<and>
   updates (process_text_message (Inr (PDict [(''ps'', PStr ''RADIO1'')]))
     (init_controller ''ws://h/audio'' ''ws://h/text'' [] (Some \<lparr>uq_items = [], uq_maxsize = 0\<rparr>)
        False False False))
     = [(''data'', PDict [(''ps'', PStr ''RADIO1'')])] \<and>
   mhz_to_khz (PList []) = Inr None"
proof -
  let ?c = "init_controller ''ws://h/audio'' ''ws://h/text'' []
    (Some \<lparr>uq_items = [], uq_maxsize = 0\<rparr>) False False False"
  have u: "unbounded_updates ?c" by (simp add: unbounded_updates_def init_controller_def)
  have e: "updates ?c = []" by (simp add: updates_def init_controller_def)
  have m: "map_of [(''ps'', PStr ''RADIO1'')] ''freq'' = None" by simp
  have n: "\<forall>s. PList [] \<noteq> PStr s" by simp
  from mhz_to_khz_total_and_record_without_freq u e m n show ?thesis
    by (metis append_Nil)
qed

section \<open>The command listener \<^verbatim>\<open>_handle_gui_commands\<close>\<close>

datatype loop_ctl = Continue | Break

text \<open>What \<^verbatim>\<open>await ws.send(command)\<close> did.\<close>

datatype send_result = SendOk | SendConnectionClosed | SendFailed string

text \<open>\<^verbatim>\<open>command.startswith("T")\<close>: only a string has the method.\<close>

definition startswith_T :: "pyval \<Rightarrow> (pyerr \<times> string) + bool" where
  "startswith_T command =
     (case command of
        PStr s \<Rightarrow> Inr (case s of [] \<Rightarrow> False | ch # t \<Rightarrow> ch = CHR ''T'')
      | _ \<Rightarrow> Inl (AttributeError, no_attribute command ''startswith''))"

text \<open>\<^verbatim>\<open>int(s)\<close> on a string: white space stripped, a sign, digits with single underscores.\<close>

definition py_int_of_str :: "string \<Rightarrow> pyerr + int" where
  "py_int_of_str s =
     (let t = strip s;
          neg = (t \<noteq> [] \<and> hd t = CHR ''-'');
          ds = (if t \<noteq> [] \<and> (hd t = CHR ''-'' \<or> hd t = CHR ''+'') then tl t else t);
          body = filter (\<lambda>ch. ch \<noteq> CHR ''_'') ds
      in if body \<noteq> [] \<and> underscores_ok (CHR 0x00) ds \<and> list_all is_digit body
         then Inr (if neg then - int (digits_val body) else int (digits_val body))
         else Inl ValueError)"

text \<open>\<^verbatim>\<open>ws and ws.close_code is None\<close>\<close>

definition ws_open :: "controller \<Rightarrow> bool" where
  "ws_open c = (case text_ws_for_commands c of None \<Rightarrow> False | Some ws \<Rightarrow> close_code ws = None)"

text \<open>
  The loop body once \<^verbatim>\<open>command\<close> has been taken from the queue. \<open>sent\<close> is the result
  of \<^verbatim>\<open>ws.send\<close>, read only where the code calls it. \<^verbatim>\<open>task_done\<close> only lowers the
  counter that \<^verbatim>\<open>join\<close> would read; nothing joins this queue, and it is left out.
\<close>

definition handle_command :: "send_result \<Rightarrow> pyval \<Rightarrow> controller \<Rightarrow> loop_ctl \<times> controller" where
  "handle_command sent command c =
     (if command = PNone then (if \<not> app_running c then (Break, c) else (Continue, c))
      else if ws_open c then
        (case command of
           PStr s \<Rightarrow>
             (if startswith_T command = Inr True then
                (let c1 = c\<lparr>ws_send_calls := ws_send_calls c @ [s]\<rparr>
                 in case sent of
                      SendOk \<Rightarrow>
                        (case py_int_of_str (tl s) of
                           Inr target_freq_khz \<Rightarrow>
                             (Continue, put_update ''current_freq'' (PInt target_freq_khz) c1)
                         | Inl e \<Rightarrow> (Continue, c1))
                    | SendConnectionClosed \<Rightarrow>
                        (Continue,
                         (put_update ''status'' (PStr ''Text WS closed, cannot send cmd.'') c1)
                           \<lparr>text_ws_for_commands := None\<rparr>)
                    | SendFailed e \<Rightarrow>
                        (Continue, put_update ''error'' (PStr (''Send command failed: '' @ e)) c1))
              else (Continue, c))
         | _ \<Rightarrow> (Continue, c))
      else
        (case startswith_T command of
           Inl (e, msg) \<Rightarrow>
             (Continue, put_update ''error'' (PStr (''Cmd handling error: '' @ msg)) c)
         | Inr True \<Rightarrow>
             (Continue, put_update ''status'' (PStr ''Text WS not connected, cannot tune.'') c)
         | Inr False \<Rightarrow> (Continue, c)))"

text \<open>
  One turn of \<^verbatim>\<open>while self.app_running_event.is_set()\<close>: \<^verbatim>\<open>get\<close> with its timeout takes
  the oldest command, or raises \<^verbatim>\<open>queue.Empty\<close> and the loop goes on.
\<close>

definition handle_gui_commands_step :: "send_result \<Rightarrow> controller \<Rightarrow> loop_ctl \<times> controller" where
  "handle_gui_commands_step sent c =
     (if \<not> app_running c then (Break, c)
      else (case command_queue c of
              [] \<Rightarrow> (Continue, c)
            | command # rest \<Rightarrow> handle_command sent command (c\<lparr>command_queue := rest\<rparr>)))"

lemma put_update_fields [simp]:
  "command_queue (put_update t d c) = command_queue c"
  "ws_send_calls (put_update t d c) = ws_send_calls c"
  "text_ws_for_commands (put_update t d c) = text_ws_for_commands c"
  "app_running (put_update t d c) = app_running c"
  "stream_enabled (put_update t d c) = stream_enabled c"
  "is_restream_only (put_update t d c) = is_restream_only c"
  "ffplay_proc (put_update t d c) = ffplay_proc c"
  "ffmpeg_proc (put_update t d c) = ffmpeg_proc c"
  "aac_clients (put_update t d c) = aac_clients c"
  "loop_stop_requested (put_update t d c) = loop_stop_requested c"
  "loop_running (put_update t d c) = loop_running c"
  "thread_alive (put_update t d c) = thread_alive c"
  "stream_port (put_update t d c) = stream_port c"
  "audio_uri (put_update t d c) = audio_uri c"
  "text_uri (put_update t d c) = text_uri c"
  "effect_log (put_update t d c) = effect_log c"
  by (simp_all add: put_update_def split: option.splits)

lemma updates_other_fields [simp]:
  "updates (c\<lparr>command_queue := cq\<rparr>) = updates c"
  "updates (c\<lparr>ws_send_calls := l\<rparr>) = updates c"
  "updates (c\<lparr>text_ws_for_commands := w\<rparr>) = updates c"
  "updates (c\<lparr>app_running := b\<rparr>) = updates c"
  "updates (c\<lparr>stream_enabled := b\<rparr>) = updates c"
  "updates (c\<lparr>ffplay_proc := p\<rparr>) = updates c"
  "updates (c\<lparr>ffmpeg_proc := p\<rparr>) = updates c"
  "updates (c\<lparr>aac_clients := qs\<rparr>) = updates c"
  "updates (c\<lparr>loop_stop_requested := b\<rparr>) = updates c"
  "updates (c\<lparr>loop_running := b\<rparr>) = updates c"
  "updates (c\<lparr>thread_alive := b\<rparr>) = updates c"
  "updates (c\<lparr>effect_log := l'\<rparr>) = updates c"
  by (simp_all add: updates_def)

lemma unbounded_other_fields [simp]:
  "unbounded_updates (c\<lparr>command_queue := cq\<rparr>) = unbounded_updates c"
  "unbounded_updates (c\<lparr>ws_send_calls := l\<rparr>) = unbounded_updates c"
  "unbounded_updates (c\<lparr>text_ws_for_commands := w\<rparr>) = unbounded_updates c"
  "unbounded_updates (c\<lparr>app_running := b\<rparr>) = unbounded_updates c"
  "unbounded_updates (c\<lparr>stream_enabled := b\<rparr>) = unbounded_updates c"
  "unbounded_updates (c\<lparr>ffplay_proc := p\<rparr>) = unbounded_updates c"
  "unbounded_updates (c\<lparr>ffmpeg_proc := p\<rparr>) = unbounded_updates c"
  "unbounded_updates (c\<lparr>aac_clients := qs\<rparr>) = unbounded_updates c"
  "unbounded_updates (c\<lparr>loop_stop_requested := b\<rparr>) = unbounded_updates c"
  "unbounded_updates (c\<lparr>loop_running := b\<rparr>) = unbounded_updates c"
  "unbounded_updates (c\<lparr>thread_alive := b\<rparr>) = unbounded_updates c"
  "unbounded_updates (c\<lparr>effect_log := l'\<rparr>) = unbounded_updates c"
  by (simp_all add: unbounded_updates_def)

lemma ws_open_other_fields [simp]:
  "ws_open (c\<lparr>command_queue := cq\<rparr>) = ws_open c"
  by (simp add: ws_open_def)

text \<open>
  C1. For a tune command (a string that starts with \<open>T\<close>) taken from the command queue,
  \<^verbatim>\<open>ws.send\<close> is called with it if and only if the controller holds a WebSocket reference
  whose close code is unset. The command leaves the queue and is not put back. When no
  open connection is held, nothing is sent and the status \<open>Text WS not connected, cannot
  tune.\<close> is put on the update queue; when the send finds the connection closed, the
  status \<open>Text WS closed, cannot send cmd.\<close> is put and the reference is cleared. The update
  queue is one that takes every update.
\<close>

theorem tune_command_sent_iff_open:
  assumes "app_running c"
    and "command_queue c = PStr cmd # rest"
    and "startswith_T (PStr cmd) = Inr True"
    and "unbounded_updates c"
  shows
    "(ws_send_calls (snd (handle_gui_commands_step sent c)) = ws_send_calls c @ [cmd]) = ws_open c \<and>
     command_queue (snd (handle_gui_commands_step sent c)) = rest \<and>
     (\<not> ws_open c \<longrightarrow>
        ws_send_calls (snd (handle_gui_commands_step sent c)) = ws_send_calls c \<and>
        updates (snd (handle_gui_commands_step sent c))
          = updates c @ [(''status'', PStr ''Text WS not connected, cannot tune.'')]) \<and>
     (ws_open c \<and> sent = SendConnectionClosed \<longrightarrow>
        text_ws_for_commands (snd (handle_gui_commands_step sent c)) = None \<and>
        updates (snd (handle_gui_commands_step sent c))
          = updates c @ [(''status'', PStr ''Text WS closed, cannot send cmd.'')])"
  using assms
  by (cases sent)
     (auto simp: handle_gui_commands_step_def handle_command_def Let_def updates_put_update
       split: sum.splits)

theorem tune_command_sent_iff_open_witness:
  "\<not> ws_open (init_controller ''ws://h/audio'' ''ws://h/text'' [PStr ''T97300'']
       (Some \<lparr>uq_items = [], uq_maxsize = 0\<rparr>) False False False) \<and>
   command_queue (snd (handle_gui_commands_step SendOk
     (init_controller ''ws://h/audio'' ''ws://h/text'' [PStr ''T97300'']
       (Some \<lparr>uq_items = [], uq_maxsize = 0\<rparr>) False False False))) = [] \<and>
   ws_send_calls (snd (handle_gui_commands_step SendOk
     (init_controller ''ws://h/audio'' ''ws://h/text'' [PStr ''T97300'']
       (Some \<lparr>uq_items = [], uq_maxsize = 0\<rparr>) False False False))) = [] \<and>
   updates (snd (handle_gui_commands_step SendOk
     (init_controller ''ws://h/audio'' ''ws://h/text'' [PStr ''T97300'']
       (Some \<lparr>uq_items = [], uq_maxsize = 0\<rparr>) False False False)))
     = [(''status'', PStr ''Text WS not connected, cannot tune.'')]"
proof -
  let ?c = "init_controller ''ws://h/audio'' ''ws://h/text'' [PStr ''T97300'']
       (Some \<lparr>uq_items = [], uq_maxsize = 0\<rparr>) False False False"
  have r: "app_running ?c" by (simp add: init_controller_def)
  have q: "command_queue ?c = PStr ''T97300'' # []" by (simp add: init_controller_def)
  have t: "startswith_T (PStr ''T97300'') = Inr True" by (simp add: startswith_T_def)
  have u: "unbounded_updates ?c" by (simp add: unbounded_updates_def init_controller_def)
  have n: "\<not> ws_open ?c" by (simp add: ws_open_def init_controller_def)
  have e: "updates ?c = []" "ws_send_calls ?c = []"
    by (simp_all add: updates_def init_controller_def)
  from tune_command_sent_iff_open [OF r q t u, of SendOk] n e show ?thesis by simp
qed

section \<open>The broadcast relay \<^verbatim>\<open>_relay_aac_data\<close> and its client sinks\<close>

text \<open>\<^verbatim>\<open>asyncio.Queue\<close>: \<^verbatim>\<open>full\<close>, \<^verbatim>\<open>put_nowait\<close>, \<^verbatim>\<open>get_nowait\<close>, \<^verbatim>\<open>task_done\<close>.\<close>

definition aq_full :: "aqueue \<Rightarrow> bool" where
  "aq_full q = (0 < aq_maxsize q \<and> aq_maxsize q \<le> length (aq_items q))"

definition put_nowait :: "string option \<Rightarrow> aqueue \<Rightarrow> pyerr + aqueue" where
  "put_nowait item q =
     (if aq_full q then Inl QueueFull
      else Inr (q\<lparr>aq_items := aq_items q @ [item], aq_unfinished := aq_unfinished q + 1\<rparr>))"

definition get_nowait :: "aqueue \<Rightarrow> pyerr + (string option \<times> aqueue)" where
  "get_nowait q =
     (case aq_items q of
        [] \<Rightarrow> Inl QueueEmpty
      | item # rest \<Rightarrow> Inr (item, q\<lparr>aq_items := rest\<rparr>))"

definition task_done :: "aqueue \<Rightarrow> pyerr + aqueue" where
  "task_done q =
     (if aq_unfinished q = 0 then Inl ValueError
      else Inr (q\<lparr>aq_unfinished := aq_unfinished q - 1\<rparr>))"

text \<open>\<^verbatim>\<open>asyncio.Queue(maxsize=10)\<close> of \<^verbatim>\<open>_handle_stream_request\<close>\<close>

definition new_client_queue :: aqueue where
  "new_client_queue = \<lparr>aq_items = [], aq_maxsize = 10, aq_unfinished = 0\<rparr>"

text \<open>
  The body of \<^verbatim>\<open>for q in current_clients\<close>: every exception is caught, and the queue
  stays as it was when the exception came.
\<close>

definition relay_to_client :: "string \<Rightarrow> aqueue \<Rightarrow> aqueue" where
  "relay_to_client chunk q =
     (case put_nowait (Some chunk) q of
        Inr q1 \<Rightarrow> q1
      | Inl e \<Rightarrow>
          (case get_nowait q of
             Inl e1 \<Rightarrow> q
           | Inr (oldest, q1) \<Rightarrow>
               (case task_done q1 of
                  Inl e2 \<Rightarrow> q1
                | Inr q2 \<Rightarrow>
                    (case put_nowait (Some chunk) q2 of
                       Inl e3 \<Rightarrow> q2
                     | Inr q3 \<Rightarrow> q3))))"

text \<open>One chunk read from the transcoder, given to the snapshot of the client set.\<close>

definition relay_chunk :: "string \<Rightarrow> controller \<Rightarrow> controller" where
  "relay_chunk chunk c = c\<lparr>aac_clients := map (relay_to_client chunk) (aac_clients c)\<rparr>"

text \<open>
  One turn of the client loop of \<^verbatim>\<open>_handle_stream_request\<close> on a sink that has an item:
  the item is taken; a chunk is written to the client (returned here) and \<^verbatim>\<open>task_done\<close>
  is called; the marker \<open>None\<close> ends the loop.
\<close>

definition client_take :: "aqueue \<Rightarrow> string option \<times> aqueue" where
  "client_take q =
     (case get_nowait q of
        Inl e \<Rightarrow> (None, q)
      | Inr (None, q1) \<Rightarrow> (None, q1)
      | Inr (Some chunk, q1) \<Rightarrow>
          (case task_done q1 of Inl e \<Rightarrow> (Some chunk, q1) | Inr q2 \<Rightarrow> (Some chunk, q2)))"

text \<open>
  A schedule of the relay and its clients: a chunk is relayed, or client \<open>i\<close> takes an
  item. The state is the client set with, for each client, what was written to it.
\<close>

datatype relay_event = Chunk string | Take nat

fun relay_step :: "relay_event \<Rightarrow> controller \<times> string list list \<Rightarrow> controller \<times> string list list" where
  "relay_step (Chunk chunk) (c, written) = (relay_chunk chunk c, written)"
| "relay_step (Take i) (c, written) =
     (if i < length (aac_clients c) then
        (case client_take (aac_clients c ! i) of
           (None, q) \<Rightarrow> (c\<lparr>aac_clients := (aac_clients c)[i := q]\<rparr>, written)
         | (Some chunk, q) \<Rightarrow>
             (c\<lparr>aac_clients := (aac_clients c)[i := q]\<rparr>, written[i := written ! i @ [chunk]]))
      else (c, written))"

fun relay_run :: "relay_event list \<Rightarrow> controller \<times> string list list \<Rightarrow> controller \<times> string list list" where
  "relay_run [] st = st"
| "relay_run (ev # evs) st = relay_run evs (relay_step ev st)"

text \<open>Sink \<open>j\<close> is never full when a chunk of the schedule is relayed.\<close>

fun keeps_up :: "nat \<Rightarrow> relay_event list \<Rightarrow> controller \<times> string list list \<Rightarrow> bool" where
  "keeps_up j [] st = True"
| "keeps_up j (Chunk chunk # evs) st =
     (\<not> aq_full (aac_clients (fst st) ! j) \<and> keeps_up j evs (relay_step (Chunk chunk) st))"
| "keeps_up j (Take i # evs) st = keeps_up j evs (relay_step (Take i) st)"

fun chunks_of :: "relay_event list \<Rightarrow> string list" where
  "chunks_of [] = []"
| "chunks_of (Chunk chunk # evs) = chunk # chunks_of evs"
| "chunks_of (Take i # evs) = chunks_of evs"

text \<open>The chunks waiting in a sink, oldest first.\<close>

definition queued :: "aqueue \<Rightarrow> string list" where
  "queued q = concat (map (\<lambda>item. case item of None \<Rightarrow> [] | Some chunk \<Rightarrow> [chunk]) (aq_items q))"

text \<open>A sink as the relay and the client loop keep it.\<close>

definition sink_ok :: "aqueue \<Rightarrow> bool" where
  "sink_ok q =
     (aq_maxsize q = 10 \<and> length (aq_items q) \<le> 10 \<and> length (aq_items q) \<le> aq_unfinished q)"

lemma relay_not_full:
  "\<not> aq_full q \<Longrightarrow> relay_to_client chunk q
     = q\<lparr>aq_items := aq_items q @ [Some chunk], aq_unfinished := aq_unfinished q + 1\<rparr>"
  by (simp add: relay_to_client_def put_nowait_def)

lemma relay_full:
  "aq_full q \<Longrightarrow> sink_ok q \<Longrightarrow> relay_to_client chunk q
     = q\<lparr>aq_items := tl (aq_items q) @ [Some chunk]\<rparr>"
  by (cases "aq_items q")
     (auto simp: relay_to_client_def put_nowait_def get_nowait_def task_done_def aq_full_def
        sink_ok_def)

lemma relay_still_full:
  "aq_full q \<Longrightarrow> aq_full (q\<lparr>aq_items := tl (aq_items q)\<rparr>) \<Longrightarrow>
     aq_items (relay_to_client chunk q) = tl (aq_items q)"
  by (cases "aq_items q")
     (auto simp: relay_to_client_def put_nowait_def get_nowait_def task_done_def aq_full_def)

lemma sink_ok_relay: "sink_ok q \<Longrightarrow> sink_ok (relay_to_client chunk q)"
  by (cases "aq_full q") (auto simp: relay_full relay_not_full sink_ok_def aq_full_def)

lemma sink_ok_take: "sink_ok q \<Longrightarrow> sink_ok (snd (client_take q))"
  by (cases "aq_items q")
     (auto simp: client_take_def get_nowait_def task_done_def sink_ok_def split: option.splits)

lemma sink_ok_new: "sink_ok new_client_queue"
  by (simp add: sink_ok_def new_client_queue_def)

lemma relay_items:
  "sink_ok q \<Longrightarrow> aq_items (relay_to_client chunk q)
     = drop (Suc (length (aq_items q)) - 10) (aq_items q @ [Some chunk])"
  by (cases "aq_full q"; cases "aq_items q")
     (auto simp: relay_full relay_not_full sink_ok_def aq_full_def)

lemma length_relay_step [simp]:
  "length (aac_clients (fst (relay_step ev st))) = length (aac_clients (fst st))"
  "length (snd (relay_step ev st)) = length (snd st)"
  by (cases ev; cases st; auto simp: relay_chunk_def split: prod.splits option.splits)+

lemma queued_relay_not_full:
  "\<not> aq_full q \<Longrightarrow> queued (relay_to_client chunk q) = queued q @ [chunk]"
  by (simp add: relay_not_full queued_def)

lemma client_take_queued:
  "client_take q = (r, q') \<Longrightarrow>
     (case r of None \<Rightarrow> [] | Some chunk \<Rightarrow> [chunk]) @ queued q' = queued q"
  by (cases "aq_items q")
     (auto simp: client_take_def get_nowait_def task_done_def queued_def
        split: option.splits if_splits)

lemma keeps_up_receives_all:
  assumes "j < length (aac_clients c)" "length written = length (aac_clients c)"
    and "keeps_up j evs (c, written)"
  shows "snd (relay_run evs (c, written)) ! j
           @ queued (aac_clients (fst (relay_run evs (c, written))) ! j)
         = written ! j @ queued (aac_clients c ! j) @ chunks_of evs"
  using assms
proof (induction evs arbitrary: c written)
  case Nil
  then show ?case by simp
next
  case (Cons ev evs)
  show ?case
  proof (cases ev)
    case (Chunk chunk)
    let ?c = "relay_chunk chunk c"
    have nf: "\<not> aq_full (aac_clients c ! j)" and ku: "keeps_up j evs (?c, written)"
      using Cons.prems(3) Chunk by simp_all
    have l: "j < length (aac_clients ?c)" "length written = length (aac_clients ?c)"
      using Cons.prems by (simp_all add: relay_chunk_def)
    have q: "queued (aac_clients ?c ! j) = queued (aac_clients c ! j) @ [chunk]"
      using Cons.prems(1) nf by (simp add: relay_chunk_def queued_relay_not_full)
    show ?thesis using Cons.IH [OF l ku] Chunk q by simp
  next
    case (Take i)
    obtain c' written' where st: "relay_step (Take i) (c, written) = (c', written')"
      by (cases "relay_step (Take i) (c, written)")
    have l: "j < length (aac_clients c')" "length written' = length (aac_clients c')"
      using length_relay_step [of "Take i" "(c, written)"] st Cons.prems by simp_all
    have ku: "keeps_up j evs (c', written')" using Cons.prems(3) Take st by simp
    have same: "written' ! j @ queued (aac_clients c' ! j) = written ! j @ queued (aac_clients c ! j)"
    proof (cases "i = j")
      case False
      then show ?thesis using st by (auto split: if_splits prod.splits option.splits)
    next
      case True
      obtain r q' where t: "client_take (aac_clients c ! j) = (r, q')"
        by (cases "client_take (aac_clients c ! j)")
      from client_take_queued [OF t] show ?thesis
        using st True t Cons.prems(1,2) by (cases r) auto
    qed
    show ?thesis using Cons.IH [OF l ku] Take st same by simp
  qed
qed

fun takes :: "nat \<Rightarrow> relay_event list \<Rightarrow> bool" where
  "takes i [] = False"
| "takes i (Chunk chunk # evs) = takes i evs"
| "takes i (Take k # evs) = (k = i \<or> takes i evs)"

lemma drop_window:
  "drop (length (drop (length xs - n) xs @ ys) - n) (drop (length xs - n) xs @ ys)
     = drop (length (xs @ ys) - n) (xs @ ys)"
  by (cases "length xs \<le> n") (auto simp: add.commute)

lemma stalled_keeps_newest:
  assumes "i < length (aac_clients c)" "sink_ok (aac_clients c ! i)" "\<not> takes i evs"
  shows "aq_items (aac_clients (fst (relay_run evs (c, written))) ! i)
         = drop (length (aq_items (aac_clients c ! i) @ map Some (chunks_of evs)) - 10)
             (aq_items (aac_clients c ! i) @ map Some (chunks_of evs))"
  using assms
proof (induction evs arbitrary: c written)
  case Nil
  then show ?case by (simp add: sink_ok_def)
next
  case (Cons ev evs)
  show ?case
  proof (cases ev)
    case (Chunk chunk)
    let ?c = "relay_chunk chunk c"
    let ?q = "aac_clients c ! i"
    have l: "i < length (aac_clients ?c)" using Cons.prems by (simp add: relay_chunk_def)
    have q: "aac_clients ?c ! i = relay_to_client chunk ?q"
      using Cons.prems(1) by (simp add: relay_chunk_def)
    have ok: "sink_ok (aac_clients ?c ! i)" using q Cons.prems(2) by (simp add: sink_ok_relay)
    have nt: "\<not> takes i evs" using Cons.prems(3) Chunk by simp
    have it: "aq_items (aac_clients ?c ! i)
        = drop (length (aq_items ?q @ [Some chunk]) - 10) (aq_items ?q @ [Some chunk])"
      using q relay_items [OF Cons.prems(2)] by simp
    show ?thesis
      using Cons.IH [OF l ok nt, of written] Chunk
      unfolding it drop_window by simp
  next
    case (Take k)
    then have ne: "k \<noteq> i" using Cons.prems(3) by simp
    obtain c' written' where st: "relay_step (Take k) (c, written) = (c', written')"
      by (cases "relay_step (Take k) (c, written)")
    have same: "aac_clients c' ! i = aac_clients c ! i" "length (aac_clients c') = length (aac_clients c)"
      using st ne by (auto split: if_splits prod.splits option.splits)
    have nt: "\<not> takes i evs" using Cons.prems(3) Take by simp
    show ?thesis
      using Cons.IH [of c' written'] Cons.prems(1,2) same nt Take st by simp
  qed
qed

lemma relay_chunk_each:
  "i < length (aac_clients c) \<Longrightarrow>
     aac_clients (relay_chunk chunk c) ! i = relay_to_client chunk (aac_clients c ! i)"
  by (simp add: relay_chunk_def)

lemma stalled_from_fresh:
  assumes "i < n" "\<not> takes i evs"
  shows "aq_items (aac_clients (fst (relay_run evs
           (c\<lparr>aac_clients := replicate n new_client_queue\<rparr>, replicate n []))) ! i)
         = map Some (drop (length (chunks_of evs) - 10) (chunks_of evs))"
proof -
  let ?c = "c\<lparr>aac_clients := replicate n new_client_queue\<rparr>"
  have "i < length (aac_clients ?c)" "sink_ok (aac_clients ?c ! i)"
    using assms(1) by (simp_all add: sink_ok_new)
  from stalled_keeps_newest [OF this assms(2)] show ?thesis
    using assms(1) by (simp add: new_client_queue_def drop_map)
qed

lemma keeping_up_from_fresh:
  assumes "j < n"
    and "keeps_up j evs (c\<lparr>aac_clients := replicate n new_client_queue\<rparr>, replicate n [])"
  shows "snd (relay_run evs (c\<lparr>aac_clients := replicate n new_client_queue\<rparr>, replicate n [])) ! j
           @ queued (aac_clients (fst (relay_run evs
               (c\<lparr>aac_clients := replicate n new_client_queue\<rparr>, replicate n []))) ! j)
         = chunks_of evs"
proof -
  let ?c = "c\<lparr>aac_clients := replicate n new_client_queue\<rparr>"
  have "j < length (aac_clients ?c)" "length (replicate n ([]::string list)) = length (aac_clients ?c)"
    using assms(1) by simp_all
  from keeps_up_receives_all [OF this assms(2)] show ?thesis
    using assms(1) by (simp add: new_client_queue_def queued_def)
qed

text \<open>
  C3. For every chunk and every client sink of the snapshot, each sink is served on its
  own: a sink that is not full gets the chunk appended unchanged; a full sink (capacity
  10) loses its oldest chunk and gets the new one; if the sink were still full after the
  eviction the chunk would be dropped for that sink. So, from fresh sinks and under any
  schedule of relayed chunks and client reads, a sink that is never read holds exactly
  the newest ten chunks, and every sink that is not full when a chunk arrives has
  received, written or still queued, every chunk in order.
\<close>

theorem relay_drops_oldest_for_slow_sink_only:
  "(\<forall>c chunk i. i < length (aac_clients c) \<longrightarrow>
      aac_clients (relay_chunk chunk c) ! i = relay_to_client chunk (aac_clients c ! i)) \<and>
   (\<forall>q chunk. \<not> aq_full q \<longrightarrow>
      aq_items (relay_to_client chunk q) = aq_items q @ [Some chunk]) \<and>
   (\<forall>q chunk. sink_ok q \<and> aq_full q \<longrightarrow>
      aq_items (relay_to_client chunk q) = tl (aq_items q) @ [Some chunk]) \<and>
   (\<forall>q chunk. aq_full q \<and> aq_full (q\<lparr>aq_items := tl (aq_items q)\<rparr>) \<longrightarrow>
      aq_items (relay_to_client chunk q) = tl (aq_items q)) \<and>
   (\<forall>c n evs i. i < n \<and> \<not> takes i evs \<longrightarrow>
      aq_items (aac_clients (fst (relay_run evs
          (c\<lparr>aac_clients := replicate n new_client_queue\<rparr>, replicate n []))) ! i)
        = map Some (drop (length (chunks_of evs) - 10) (chunks_of evs))) \<and>
   (\<forall>c n evs j. j < n \<and>
        keeps_up j evs (c\<lparr>aac_clients := replicate n new_client_queue\<rparr>, replicate n []) \<longrightarrow>
      snd (relay_run evs (c\<lparr>aac_clients := replicate n new_client_queue\<rparr>, replicate n [])) ! j
        @ queued (aac_clients (fst (relay_run evs
            (c\<lparr>aac_clients := replicate n new_client_queue\<rparr>, replicate n []))) ! j)
        = chunks_of evs)"
proof (intro conjI allI impI)
  fix c :: controller and chunk i assume "i < length (aac_clients c)"
  then show "aac_clients (relay_chunk chunk c) ! i = relay_to_client chunk (aac_clients c ! i)"
    by (rule relay_chunk_each)
next
  fix q chunk assume "\<not> aq_full q"
  then show "aq_items (relay_to_client chunk q) = aq_items q @ [Some chunk]"
    by (simp add: relay_not_full)
next
  fix q chunk assume "sink_ok q \<and> aq_full q"
  then show "aq_items (relay_to_client chunk q) = tl (aq_items q) @ [Some chunk]"
    by (simp add: relay_full)
next
  fix q chunk assume "aq_full q \<and> aq_full (q\<lparr>aq_items := tl (aq_items q)\<rparr>)"
  then show "aq_items (relay_to_client chunk q) = tl (aq_items q)"
    by (simp add: relay_still_full)
next
  fix c :: controller and n evs i assume "i < n \<and> \<not> takes i evs"
  then show "aq_items (aac_clients (fst (relay_run evs
          (c\<lparr>aac_clients := replicate n new_client_queue\<rparr>, replicate n []))) ! i)
        = map Some (drop (length (chunks_of evs) - 10) (chunks_of evs))"
    by (simp add: stalled_from_fresh)
next
  fix c :: controller and n evs j
  assume "j < n \<and>
        keeps_up j evs (c\<lparr>aac_clients := replicate n new_client_queue\<rparr>, replicate n [])"
  then show "snd (relay_run evs (c\<lparr>aac_clients := replicate n new_client_queue\<rparr>, replicate n [])) ! j
        @ queued (aac_clients (fst (relay_run evs
            (c\<lparr>aac_clients := replicate n new_client_queue\<rparr>, replicate n []))) ! j)
        = chunks_of evs"
    by (simp add: keeping_up_from_fresh)
qed

text \<open>
  Three sinks and eleven chunks; after each chunk the clients 1 and 2 take one item,
  client 0 never does.
\<close>

definition example_schedule :: "relay_event list" where
  "example_schedule = concat (map (\<lambda>chunk. [Chunk chunk, Take 1, Take 2])
     [''a'', ''b'', ''c'', ''d'', ''e'', ''f'', ''g'', ''h'', ''i'', ''j'', ''k''])"

definition example_controller :: controller where
  "example_controller =
     init_controller ''ws://h/audio'' ''ws://h/text'' []
       (Some \<lparr>uq_items = [], uq_maxsize = 0\<rparr>) True True True"

lemmas relay_eval = relay_chunk_def relay_to_client_def put_nowait_def get_nowait_def
  task_done_def client_take_def aq_full_def new_client_queue_def

lemma replicate_3: "replicate 3 x = [x, x, x]"
  by (simp add: numeral_3_eq_3)

lemma example_schedule_chunks:
  "chunks_of example_schedule
     = [''a'', ''b'', ''c'', ''d'', ''e'', ''f'', ''g'', ''h'', ''i'', ''j'', ''k'']"
  by (simp add: example_schedule_def)

theorem relay_drops_oldest_for_slow_sink_only_witness:
  "\<not> takes 0 example_schedule \<and>
   keeps_up 1 example_schedule
     (example_controller\<lparr>aac_clients := replicate 3 new_client_queue\<rparr>, replicate 3 []) \<and>
   aq_items (aac_clients (fst (relay_run example_schedule
       (example_controller\<lparr>aac_clients := replicate 3 new_client_queue\<rparr>, replicate 3 []))) ! 0)
     = map Some [''b'', ''c'', ''d'', ''e'', ''f'', ''g'', ''h'', ''i'', ''j'', ''k''] \<and>
   snd (relay_run example_schedule
       (example_controller\<lparr>aac_clients := replicate 3 new_client_queue\<rparr>, replicate 3 [])) ! 1
     @ queued (aac_clients (fst (relay_run example_schedule
       (example_controller\<lparr>aac_clients := replicate 3 new_client_queue\<rparr>, replicate 3 []))) ! 1)
     = [''a'', ''b'', ''c'', ''d'', ''e'', ''f'', ''g'', ''h'', ''i'', ''j'', ''k'']"
proof -
  let ?st = "(example_controller\<lparr>aac_clients := replicate 3 new_client_queue\<rparr>,
    replicate 3 ([]::string list))"
  have nt: "\<not> takes 0 example_schedule" by (simp add: example_schedule_def)
  have ku: "keeps_up 1 example_schedule ?st"
    by (simp add: example_schedule_def replicate_3 relay_eval)
  note t = relay_drops_oldest_for_slow_sink_only
  have "aq_items (aac_clients (fst (relay_run example_schedule ?st)) ! 0)
      = map Some (drop (length (chunks_of example_schedule) - 10) (chunks_of example_schedule))"
    using t [THEN conjunct2, THEN conjunct2, THEN conjunct2, THEN conjunct2, THEN conjunct1,
        rule_format, of 0 3 example_schedule example_controller] nt
    by simp
  moreover have "snd (relay_run example_schedule ?st) ! 1
      @ queued (aac_clients (fst (relay_run example_schedule ?st)) ! 1)
      = chunks_of example_schedule"
    using t [THEN conjunct2, THEN conjunct2, THEN conjunct2, THEN conjunct2, THEN conjunct2,
        rule_format, of 1 3 example_schedule example_controller] ku
    by simp
  ultimately show ?thesis using nt ku by (simp add: example_schedule_chunks)
qed

section \<open>The reconnection delay of both channel loops\<close>














section \<open>External processes\<close>

text \<open>\<^verbatim>\<open>str(n)\<close> for an integer, as the f-strings print it.\<close>

fun str_of_nat :: "nat \<Rightarrow> string" where
  "str_of_nat n =
     (if n < 10 then [char_of (48 + n)] else str_of_nat (n div 10) @ [char_of (48 + n mod 10)])"

declare str_of_nat.simps [simp del]

definition str_of_int :: "int \<Rightarrow> string" where
  "str_of_int i = (if i < 0 then ''-'' @ str_of_nat (nat (- i)) else str_of_nat (nat i))"

text \<open>
  \<^verbatim>\<open>is_unexpected_exit\<close>: \<^verbatim>\<open>SIGTERM\<close> is 15 and \<^verbatim>\<open>SIGKILL\<close> is 9; \<open>win32\<close> is
  \<^verbatim>\<open>sys.platform == "win32"\<close>.
\<close>

definition is_unexpected_exit :: "bool \<Rightarrow> int option \<Rightarrow> bool" where
  "is_unexpected_exit win32 return_code =
     (case return_code of
        None \<Rightarrow> False
      | Some rc \<Rightarrow>
          if rc = 0 then False
          else let graceful_signals = (if \<not> win32 then [- 15, - 9] else [- 15])
               in rc \<notin> set graceful_signals)"

text \<open>
  What \<^verbatim>\<open>proc.terminate()\<close> did: it returned, it raised \<^verbatim>\<open>ProcessLookupError\<close>, or it
  raised something else, and then the process is still running (\<open>True\<close>) or not when the
  handler reads \<^verbatim>\<open>returncode\<close> again.
\<close>

datatype term_result = TermOk | TermLookupError | TermFailed bool

text \<open>
  \<^verbatim>\<open>_kill_process\<close>: the calls it makes on the process, added to the log. It returns
  \<^verbatim>\<open>None\<close>, which the callers store in their reference. \<^verbatim>\<open>kill\<close> is called only in the
  handler of a failed \<^verbatim>\<open>terminate\<close>.
\<close>

definition kill_process :: "term_result \<Rightarrow> proc option \<Rightarrow> effect list \<Rightarrow> effect list" where
  "kill_process terminated pr lg =
     (case pr of
        None \<Rightarrow> lg
      | Some p \<Rightarrow>
          if returncode p = None then
            lg @ (if \<not> stdin_closing p then [CloseStdin (pid p)] else [])
               @ [Terminate (pid p)]
               @ (case terminated of TermFailed True \<Rightarrow> [Kill (pid p)] | _ \<Rightarrow> [])
          else lg)"

definition kill_ffplay :: "term_result \<Rightarrow> controller \<Rightarrow> controller" where
  "kill_ffplay terminated c =
     c\<lparr>effect_log := kill_process terminated (ffplay_proc c) (effect_log c), ffplay_proc := None\<rparr>"

definition kill_ffmpeg :: "term_result \<Rightarrow> controller \<Rightarrow> controller" where
  "kill_ffmpeg terminated c =
     c\<lparr>effect_log := kill_process terminated (ffmpeg_proc c) (effect_log c), ffmpeg_proc := None\<rparr>"

section \<open>The audio channel \<^verbatim>\<open>_play_audio_stream\<close>\<close>

text \<open>What \<^verbatim>\<open>asyncio.create_subprocess_exec\<close> did.\<close>

datatype spawn_result = Spawned proc | SpawnNotFound | SpawnFailed string

text \<open>
  How a connection attempt goes on after the processes are started: into the receive
  loop, out of the task (\<^verbatim>\<open>return\<close>), or to the next turn of the outer loop after a sleep
  (\<^verbatim>\<open>continue\<close>).
\<close>

datatype attempt_ctl = EnterReceiveLoop | ReturnFromTask | RetryConnection

text \<open>The start of \<^verbatim>\<open>ffmpeg\<close>, \<^verbatim>\<open>if self.stream_enabled:\<close> and its handlers.\<close>

definition start_ffmpeg :: "spawn_result \<Rightarrow> controller \<Rightarrow> controller" where
  "start_ffmpeg spawned c =
     (let c1 = c\<lparr>ffmpeg_proc := None\<rparr>
      in if stream_enabled c1 then
           (let c2 = put_update ''status'' (PStr ''Starting AAC encoder (ffmpeg)...'') c1;
                c3 = kill_ffmpeg TermOk c2
            in case spawned of
                 Spawned p \<Rightarrow> c3\<lparr>ffmpeg_proc := Some p, effect_log := effect_log c3 @ [Spawn (pid p)]\<rparr>
               | SpawnNotFound \<Rightarrow>
                   (put_update ''error'' (PStr (sq @ ''ffmpeg'' @ sq @ '' not found. Cannot stream.'')) c3)
                     \<lparr>stream_enabled := False\<rparr>
               | SpawnFailed e \<Rightarrow>
                   (put_update ''error''
                      (PStr (''Failed to start ffmpeg: '' @ e @ ''. Streaming disabled.'')) c3)
                     \<lparr>stream_enabled := False\<rparr>)
         else c1)"

text \<open>
  The attempt from \<^verbatim>\<open>self.ffplay_proc = None\<close> to the receive loop: the start of
  \<^verbatim>\<open>ffplay\<close> unless in restream-only mode, then the start of \<^verbatim>\<open>ffmpeg\<close>. Nothing here
  reads the running flag.
\<close>

definition start_processes ::
  "spawn_result \<Rightarrow> spawn_result \<Rightarrow> controller \<Rightarrow> attempt_ctl \<times> controller" where
  "start_processes ffplay_spawned ffmpeg_spawned c =
     (let c1 = c\<lparr>ffplay_proc := None\<rparr>
      in if \<not> is_restream_only c1 then
           (let c2 = put_update ''status'' (PStr ''Starting audio player (ffplay)...'') c1;
                c3 = kill_ffplay TermOk c2
            in case ffplay_spawned of
                 Spawned p \<Rightarrow>
                   (EnterReceiveLoop,
                    start_ffmpeg ffmpeg_spawned
                      (c3\<lparr>ffplay_proc := Some p, effect_log := effect_log c3 @ [Spawn (pid p)]\<rparr>))
               | SpawnNotFound \<Rightarrow>
                   (ReturnFromTask,
                    (put_update ''error''
                       (PStr (''Fatal: '' @ sq @ ''ffplay'' @ sq @ '' command not found. Playback disabled.''))
                       c3)\<lparr>app_running := False\<rparr>)
               | SpawnFailed e \<Rightarrow>
                   (RetryConnection,
                    put_update ''error'' (PStr (''Failed to start ffplay: '' @ e)) c3))
         else (EnterReceiveLoop, start_ffmpeg ffmpeg_spawned c1))"

text \<open>
  The head of one turn of the receive loop, \<^verbatim>\<open>while self.app_running_event.is_set()\<close>:
  the exit codes are read, then an exit of \<^verbatim>\<open>ffplay\<close> is handled and the loop left,
  or else an exit of \<^verbatim>\<open>ffmpeg\<close> is handled and the turn goes on to receive audio.
\<close>

definition check_processes :: "bool \<Rightarrow> controller \<Rightarrow> loop_ctl \<times> controller" where
  "check_processes win32 c =
     (let ffplay_rc = (if \<not> is_restream_only c
                       then (case ffplay_proc c of None \<Rightarrow> None | Some p \<Rightarrow> returncode p)
                       else None);
          ffmpeg_rc = (if stream_enabled c
                       then (case ffmpeg_proc c of None \<Rightarrow> None | Some p \<Rightarrow> returncode p)
                       else None)
      in case ffplay_rc of
           Some rc \<Rightarrow>
             (Break,
              (if is_unexpected_exit win32 ffplay_rc
               then put_update ''error''
                      (PStr (''ffplay exited unexpectedly (code '' @ str_of_int rc @ '').'')) c
               else put_update ''status'' (PStr ''ffplay stopped.'') c)
                \<lparr>ffplay_proc := None\<rparr>)
         | None \<Rightarrow>
             (case ffmpeg_rc of
                Some rc \<Rightarrow>
                  (Continue,
                   kill_ffmpeg TermOk
                     ((if is_unexpected_exit win32 ffmpeg_rc
                       then put_update ''error''
                              (PStr (''ffmpeg exited unexpectedly (code '' @ str_of_int rc
                                 @ ''). Streaming stopped.'')) c
                       else put_update ''stream_status'' (PStr ''Stream: Encoder stopped.'') c)
                        \<lparr>stream_enabled := False, ffmpeg_proc := None\<rparr>))
              | None \<Rightarrow> (Continue, c)))"

text \<open>
  The \<^verbatim>\<open>finally\<close> block of a connection attempt: the processes of the attempt are
  terminated and, while the flag is set, the retry is announced (the stderr readers and
  the socket, which it also closes, are not part of the state).
\<close>

definition attempt_cleanup :: "term_result \<Rightarrow> term_result \<Rightarrow> controller \<Rightarrow> controller" where
  "attempt_cleanup t1 t2 c =
     (let c1 = (if \<not> is_restream_only c then kill_ffplay t1 c else c);
          c2 = (if stream_enabled c1 then kill_ffmpeg t2 c1 else c1)
      in if app_running c2
         then put_update ''status'' (PStr ''Audio stream disconnected. Retrying...'') c2
         else c2)"

lemma kill_fields [simp]:
  "updates (kill_ffplay t c) = updates c"
  "updates (kill_ffmpeg t c) = updates c"
  "unbounded_updates (kill_ffplay t c) = unbounded_updates c"
  "unbounded_updates (kill_ffmpeg t c) = unbounded_updates c"
  "app_running (kill_ffplay t c) = app_running c"
  "app_running (kill_ffmpeg t c) = app_running c"
  "stream_enabled (kill_ffplay t c) = stream_enabled c"
  "stream_enabled (kill_ffmpeg t c) = stream_enabled c"
  "is_restream_only (kill_ffplay t c) = is_restream_only c"
  "is_restream_only (kill_ffmpeg t c) = is_restream_only c"
  "ffplay_proc (kill_ffplay t c) = None"
  "ffmpeg_proc (kill_ffmpeg t c) = None"
  "ffmpeg_proc (kill_ffplay t c) = ffmpeg_proc c"
  "ffplay_proc (kill_ffmpeg t c) = ffplay_proc c"
  "loop_stop_requested (kill_ffplay t c) = loop_stop_requested c"
  "loop_stop_requested (kill_ffmpeg t c) = loop_stop_requested c"
  "thread_alive (kill_ffplay t c) = thread_alive c"
  "thread_alive (kill_ffmpeg t c) = thread_alive c"
  "loop_running (kill_ffplay t c) = loop_running c"
  "loop_running (kill_ffmpeg t c) = loop_running c"
  by (simp_all add: kill_ffplay_def kill_ffmpeg_def updates_def unbounded_updates_def)

lemma kill_process_None [simp]: "kill_process t None lg = lg"
  by (simp add: kill_process_def)

text \<open>A state in which both processes have exited with code 1.\<close>

definition both_exited :: controller where
  "both_exited =
     (init_controller ''ws://h/audio'' ''ws://h/text'' []
        (Some \<lparr>uq_items = [], uq_maxsize = 0\<rparr>) True False True)
       \<lparr>ffplay_proc := Some \<lparr>pid = 11, returncode = Some 1, stdin_closing = False\<rparr>,
        ffmpeg_proc := Some \<lparr>pid = 12, returncode = Some 1, stdin_closing = False\<rparr>\<rparr>"

text \<open>
  C6, as stated, fails where both processes are seen to have exited in the same turn:
  the exit of \<^verbatim>\<open>ffplay\<close> is handled and the loop left before the exit of \<^verbatim>\<open>ffmpeg\<close> is
  looked at, so the transcoder's handle is not cleared by the check, transcoding stays
  enabled and the loop does not go on to receive audio.
\<close>

theorem both_exited_transcoder_not_handled:
  "\<not> is_restream_only both_exited \<and> stream_enabled both_exited \<and>
   map_option returncode (ffplay_proc both_exited) = Some (Some 1) \<and>
   map_option returncode (ffmpeg_proc both_exited) = Some (Some 1) \<and>
   fst (check_processes False both_exited) = Break \<and>
   ffmpeg_proc (snd (check_processes False both_exited)) \<noteq> None \<and>
   stream_enabled (snd (check_processes False both_exited))"
  by (simp add: both_exited_def init_controller_def check_processes_def is_unexpected_exit_def
      put_update_def uq_full_def)

text \<open>
  C6, amended. In a turn of the receive loop, an exit of the playback process that is
  observed (not restream-only, a handle whose return code is set) clears its handle and
  breaks the loop. An exit of the transcoder that is observed (streaming enabled, a handle
  whose return code is set), in a turn where no exit of the playback process is observed,
  clears the transcoder's handle, disables streaming and nothing else (the flag, the
  playback handle stay), and the turn continues. After a break, the cleanup of the
  attempt clears both handles.
\<close>

theorem exited_process_handled:
  "(\<forall>win32 c p rc. \<not> is_restream_only c \<and> ffplay_proc c = Some p \<and> returncode p = Some rc \<longrightarrow>
      fst (check_processes win32 c) = Break \<and>
      ffplay_proc (snd (check_processes win32 c)) = None) \<and>
   (\<forall>win32 c p rc. stream_enabled c \<and> ffmpeg_proc c = Some p \<and> returncode p = Some rc \<and>
        (is_restream_only c \<or> ffplay_proc c = None \<or>
         (\<exists>p'. ffplay_proc c = Some p' \<and> returncode p' = None)) \<longrightarrow>
      fst (check_processes win32 c) = Continue \<and>
      ffmpeg_proc (snd (check_processes win32 c)) = None \<and>
      \<not> stream_enabled (snd (check_processes win32 c)) \<and>
      app_running (snd (check_processes win32 c)) = app_running c \<and>
      ffplay_proc (snd (check_processes win32 c)) = ffplay_proc c) \<and>
   (\<forall>win32 t1 t2 c. fst (check_processes win32 c) = Break \<and> \<not> is_restream_only c \<and>
        stream_enabled c \<longrightarrow>
      ffplay_proc (attempt_cleanup t1 t2 (snd (check_processes win32 c))) = None \<and>
      ffmpeg_proc (attempt_cleanup t1 t2 (snd (check_processes win32 c))) = None)"
  by (auto simp: check_processes_def attempt_cleanup_def Let_def split: option.splits if_splits)

text \<open>A state in which the transcoder has exited with code 1 and the player runs.\<close>

definition encoder_exited :: controller where
  "encoder_exited =
     (init_controller ''ws://h/audio'' ''ws://h/text'' []
        (Some \<lparr>uq_items = [], uq_maxsize = 0\<rparr>) True False True)
       \<lparr>ffplay_proc := Some \<lparr>pid = 11, returncode = None, stdin_closing = False\<rparr>,
        ffmpeg_proc := Some \<lparr>pid = 12, returncode = Some 1, stdin_closing = False\<rparr>\<rparr>"

theorem exited_process_handled_witness:
  "\<not> is_restream_only both_exited \<and>
   ffplay_proc both_exited = Some \<lparr>pid = 11, returncode = Some 1, stdin_closing = False\<rparr> \<and>
   fst (check_processes False both_exited) = Break \<and>
   ffplay_proc (snd (check_processes False both_exited)) = None \<and>
   ffmpeg_proc (attempt_cleanup TermOk TermOk (snd (check_processes False both_exited))) = None \<and>
   stream_enabled encoder_exited \<and>
   ffmpeg_proc encoder_exited = Some \<lparr>pid = 12, returncode = Some 1, stdin_closing = False\<rparr> \<and>
   ffplay_proc encoder_exited = Some \<lparr>pid = 11, returncode = None, stdin_closing = False\<rparr> \<and>
   fst (check_processes False encoder_exited) = Continue \<and>
   ffmpeg_proc (snd (check_processes False encoder_exited)) = None \<and>
   \<not> stream_enabled (snd (check_processes False encoder_exited)) \<and>
   app_running (snd (check_processes False encoder_exited))"
proof -
  have b: "\<not> is_restream_only both_exited" "stream_enabled both_exited"
    "ffplay_proc both_exited = Some \<lparr>pid = 11, returncode = Some 1, stdin_closing = False\<rparr>"
    by (simp_all add: both_exited_def init_controller_def)
  have e: "stream_enabled encoder_exited" "app_running encoder_exited"
    "ffmpeg_proc encoder_exited = Some \<lparr>pid = 12, returncode = Some 1, stdin_closing = False\<rparr>"
    "ffplay_proc encoder_exited = Some \<lparr>pid = 11, returncode = None, stdin_closing = False\<rparr>"
    by (simp_all add: encoder_exited_def init_controller_def)
  note t = exited_process_handled
  have 1: "fst (check_processes False both_exited) = Break \<and>
      ffplay_proc (snd (check_processes False both_exited)) = None"
    using t [THEN conjunct1, rule_format, of both_exited _ 1 False] b by simp
  have 3: "ffmpeg_proc (attempt_cleanup TermOk TermOk (snd (check_processes False both_exited))) = None"
    using t [THEN conjunct2, THEN conjunct2, rule_format, of False both_exited TermOk TermOk] 1 b
    by simp
  have 2: "fst (check_processes False encoder_exited) = Continue \<and>
      ffmpeg_proc (snd (check_processes False encoder_exited)) = None \<and>
      \<not> stream_enabled (snd (check_processes False encoder_exited)) \<and>
      app_running (snd (check_processes False encoder_exited)) = app_running encoder_exited"
    using t [THEN conjunct2, THEN conjunct1, rule_format, of encoder_exited _ 1 False] e by simp
  show ?thesis using 1 2 3 b e by simp
qed

text \<open>
  A controller in restream-only mode with streaming enabled, and what it is after the
  start of the processes when the \<^verbatim>\<open>ffmpeg\<close> executable is absent.
\<close>

definition restream_only_controller :: controller where
  "restream_only_controller =
     init_controller ''ws://h/audio'' ''ws://h/text'' []
       (Some \<lparr>uq_items = [], uq_maxsize = 0\<rparr>) True True True"

text \<open>
  C7, as stated, fails on the update it names: with \<^verbatim>\<open>ffmpeg\<close> absent in restream-only
  mode the controller puts a status and an error update, and no \<^verbatim>\<open>stream_status\<close> update
  at all.
\<close>

theorem ffmpeg_missing_puts_no_stream_status:
  "is_restream_only restream_only_controller \<and> stream_enabled restream_only_controller \<and>
   updates (snd (start_processes SpawnNotFound SpawnNotFound restream_only_controller))
     = [(''status'', PStr ''Starting AAC encoder (ffmpeg)...''),
        (''error'', PStr (sq @ ''ffmpeg'' @ sq @ '' not found. Cannot stream.''))] \<and>
   list_all (\<lambda>u. fst u \<noteq> ''stream_status'')
     (updates (snd (start_processes SpawnNotFound SpawnNotFound restream_only_controller)))"
  by (simp add: restream_only_controller_def init_controller_def start_processes_def
      start_ffmpeg_def kill_ffmpeg_def put_update_def uq_full_def updates_def Let_def)

text \<open>
  C7, amended. When the \<^verbatim>\<open>ffmpeg\<close> executable is absent while streaming is enabled and
  local playback is off (restream-only mode), the controller puts the status that it
  starts the encoder and the error \<open>'ffmpeg' not found. Cannot stream.\<close>, and no
  \<^verbatim>\<open>stream_status\<close> update; it disables streaming, leaves the running flag as it is,
  starts no process and enters the receive loop. A missing \<^verbatim>\<open>ffplay\<close> outside
  restream-only mode is fatal: the error is put, the flag is cleared and the task returns.
  The update queue is one that takes every update.
\<close>

theorem ffmpeg_missing_disables_streaming_only:
  "(\<forall>c x. is_restream_only c \<and> stream_enabled c \<and> unbounded_updates c \<longrightarrow>
      fst (start_processes x SpawnNotFound c) = EnterReceiveLoop \<and>
      updates (snd (start_processes x SpawnNotFound c))
        = updates c @ [(''status'', PStr ''Starting AAC encoder (ffmpeg)...''),
                       (''error'', PStr (sq @ ''ffmpeg'' @ sq @ '' not found. Cannot stream.''))] \<and>
      \<not> stream_enabled (snd (start_processes x SpawnNotFound c)) \<and>
      app_running (snd (start_processes x SpawnNotFound c)) = app_running c \<and>
      ffmpeg_proc (snd (start_processes x SpawnNotFound c)) = None \<and>
      list_all (\<lambda>ev. \<forall>n. ev \<noteq> Spawn n)
        (drop (length (effect_log c)) (effect_log (snd (start_processes x SpawnNotFound c))))) \<and>
   (\<forall>c y. \<not> is_restream_only c \<and> unbounded_updates c \<longrightarrow>
      fst (start_processes SpawnNotFound y c) = ReturnFromTask \<and>
      \<not> app_running (snd (start_processes SpawnNotFound y c)) \<and>
      updates (snd (start_processes SpawnNotFound y c))
        = updates c @ [(''status'', PStr ''Starting audio player (ffplay)...''),
             (''error'', PStr (''Fatal: '' @ sq @ ''ffplay'' @ sq
                @ '' command not found. Playback disabled.''))])"
  by (auto simp: start_processes_def start_ffmpeg_def Let_def updates_put_update
      kill_ffmpeg_def kill_ffplay_def kill_process_def split: option.splits)

theorem ffmpeg_missing_disables_streaming_only_witness:
  "is_restream_only restream_only_controller \<and> stream_enabled restream_only_controller \<and>
   unbounded_updates restream_only_controller \<and>
   fst (start_processes SpawnNotFound SpawnNotFound restream_only_controller) = EnterReceiveLoop \<and>
   \<not> stream_enabled (snd (start_processes SpawnNotFound SpawnNotFound restream_only_controller)) \<and>
   app_running (snd (start_processes SpawnNotFound SpawnNotFound restream_only_controller)) \<and>
   \<not> is_restream_only encoder_exited \<and> unbounded_updates encoder_exited \<and>
   fst (start_processes SpawnNotFound SpawnNotFound encoder_exited) = ReturnFromTask \<and>
   \<not> app_running (snd (start_processes SpawnNotFound SpawnNotFound encoder_exited))"
proof -
  have r: "is_restream_only restream_only_controller" "stream_enabled restream_only_controller"
    "unbounded_updates restream_only_controller" "app_running restream_only_controller"
    by (simp_all add: restream_only_controller_def init_controller_def unbounded_updates_def)
  have e: "\<not> is_restream_only encoder_exited" "unbounded_updates encoder_exited"
    by (simp_all add: encoder_exited_def init_controller_def unbounded_updates_def)
  note t = ffmpeg_missing_disables_streaming_only
  have 1: "fst (start_processes SpawnNotFound SpawnNotFound restream_only_controller) = EnterReceiveLoop \<and>
      \<not> stream_enabled (snd (start_processes SpawnNotFound SpawnNotFound restream_only_controller)) \<and>
      app_running (snd (start_processes SpawnNotFound SpawnNotFound restream_only_controller))
        = app_running restream_only_controller"
    using t [THEN conjunct1, rule_format, of restream_only_controller SpawnNotFound] r by simp
  have 2: "fst (start_processes SpawnNotFound SpawnNotFound encoder_exited) = ReturnFromTask \<and>
      \<not> app_running (snd (start_processes SpawnNotFound SpawnNotFound encoder_exited))"
    using t [THEN conjunct2, rule_format, of encoder_exited SpawnNotFound] e by simp
  show ?thesis using 1 2 r e by simp
qed

section \<open>\<^verbatim>\<open>stop\<close> and the controller thread\<close>

text \<open>
  The end of \<^verbatim>\<open>_run_asyncio_loop\<close>, reached when \<^verbatim>\<open>run_forever\<close> returns: the loop is
  closed, the processes are terminated once more, and \<^verbatim>\<open>closed\<close> is put. This is the only
  place that puts \<^verbatim>\<open>closed\<close>. \<^verbatim>\<open>run_forever\<close> returns only after \<^verbatim>\<open>loop.stop\<close> (a
  crash of the loop itself, which no handler of the controller causes, is left out);
  until then the thread stays in it and the state is as it was.
\<close>

definition thread_exit :: "term_result \<Rightarrow> term_result \<Rightarrow> controller \<Rightarrow> controller" where
  "thread_exit t1 t2 c =
     (if thread_alive c \<and> loop_stop_requested c then
        (let c1 = c\<lparr>loop_running := False\<rparr>;
             c2 = kill_ffmpeg t2 (kill_ffplay t1 c1);
             c3 = put_update ''closed'' PNone c2
         in c3\<lparr>thread_alive := False\<rparr>)
      else c)"

text \<open>
  What \<^verbatim>\<open>self.thread.join(timeout=7.0)\<close> saw: the thread ended within the seven seconds
  (with the results of its two \<^verbatim>\<open>terminate\<close> calls), or it did not.
\<close>

datatype join_result = Joined term_result term_result | JoinTimedOut

text \<open>
  \<^verbatim>\<open>stop\<close>: the first block only while the flag is set (the flag is cleared, the
  sentinel \<^verbatim>\<open>None\<close> is put on the command queue, \<^verbatim>\<open>loop.stop\<close> is scheduled on a running
  loop, the thread is joined); then, in every case, \<^verbatim>\<open>_kill_ffplay\<close> and \<^verbatim>\<open>_kill_ffmpeg\<close>.
\<close>

definition stop :: "join_result \<Rightarrow> term_result \<Rightarrow> term_result \<Rightarrow> controller \<Rightarrow> controller" where
  "stop joined t1 t2 c =
     (let c1 =
        (if app_running c then
           (let c2 = c\<lparr>app_running := False, command_queue := command_queue c @ [PNone]\<rparr>;
                c3 = (if loop_running c2 then c2\<lparr>loop_stop_requested := True\<rparr> else c2)
            in if thread_alive c3 then
                 (case joined of Joined a b \<Rightarrow> thread_exit a b c3 | JoinTimedOut \<Rightarrow> c3)
               else c3)
         else c)
      in kill_ffmpeg t2 (kill_ffplay t1 c1))"

text \<open>A running controller whose player is alive.\<close>

definition playing :: controller where
  "playing =
     (init_controller ''ws://h/audio'' ''ws://h/text'' []
        (Some \<lparr>uq_items = [], uq_maxsize = 0\<rparr>) False False False)
       \<lparr>ffplay_proc := Some \<lparr>pid = 11, returncode = None, stdin_closing = False\<rparr>\<rparr>"

fun is_kill :: "effect \<Rightarrow> bool" where
  "is_kill (Kill n) = True"
| "is_kill ev = False"

lemma kill_process_no_kill:
  "\<not> list_ex is_kill lg \<Longrightarrow> \<not> list_ex is_kill (kill_process TermOk pr lg)"
  by (cases pr) (simp_all add: kill_process_def)

lemma kill_ffplay_no_kill:
  "\<not> list_ex is_kill (effect_log c) \<Longrightarrow> \<not> list_ex is_kill (effect_log (kill_ffplay TermOk c))"
  by (simp add: kill_ffplay_def kill_process_no_kill)

lemma kill_ffmpeg_no_kill:
  "\<not> list_ex is_kill (effect_log c) \<Longrightarrow> \<not> list_ex is_kill (effect_log (kill_ffmpeg TermOk c))"
  by (simp add: kill_ffmpeg_def kill_process_no_kill)

lemma thread_exit_no_kill:
  "\<not> list_ex is_kill (effect_log c) \<Longrightarrow> \<not> list_ex is_kill (effect_log (thread_exit TermOk TermOk c))"
  by (simp add: thread_exit_def Let_def kill_ffplay_no_kill kill_ffmpeg_no_kill)

lemma stop_never_kills:
  assumes "\<not> list_ex is_kill (effect_log c)"
    and "joined = JoinTimedOut \<or> joined = Joined TermOk TermOk"
  shows "\<not> list_ex is_kill (effect_log (stop joined TermOk TermOk c))"
proof -
  let ?c2 = "c\<lparr>app_running := False, command_queue := command_queue c @ [PNone]\<rparr>"
  have a: "\<not> list_ex is_kill (effect_log ?c2)" using assms(1) by simp
  have b: "\<not> list_ex is_kill (effect_log (?c2\<lparr>loop_stop_requested := True\<rparr>))"
    using assms(1) by simp
  have c: "\<not> list_ex is_kill (effect_log (thread_exit TermOk TermOk ?c2))"
    "\<not> list_ex is_kill (effect_log (thread_exit TermOk TermOk (?c2\<lparr>loop_stop_requested := True\<rparr>)))"
    using a b by (simp_all add: thread_exit_no_kill)
  have "\<not> list_ex is_kill (effect_log
      (if app_running c then
         (let c3 = (if loop_running ?c2 then ?c2\<lparr>loop_stop_requested := True\<rparr> else ?c2)
          in if thread_alive c3 then
               (case joined of Joined a b \<Rightarrow> thread_exit a b c3 | JoinTimedOut \<Rightarrow> c3)
             else c3)
       else c))"
    using assms a b c by (cases "app_running c"; cases "loop_running c"; cases "thread_alive c") auto
  then show ?thesis
    unfolding stop_def Let_def by (intro kill_ffmpeg_no_kill kill_ffplay_no_kill)
qed

lemma stop_clears_handles:
  "ffplay_proc (stop joined t1 t2 c) = None" "ffmpeg_proc (stop joined t1 t2 c) = None"
  by (simp_all add: stop_def Let_def)

text \<open>
  C8, on the code: \<^verbatim>\<open>stop\<close> does not force-kill a process whose \<^verbatim>\<open>terminate\<close> call
  returns. For the player of \<open>playing\<close>, alive at \<^verbatim>\<open>stop\<close> and taken to survive the
  termination signal: whether the thread ends within the grace window or the join times
  out, the calls made on the process are the stdin close and one \<^verbatim>\<open>terminate\<close>, never
  \<^verbatim>\<open>kill\<close>, and the controller's reference to it is cleared, so that no later call can
  reach it.
\<close>

theorem stop_terminates_but_never_kills:
  "app_running playing \<and>
   map_option returncode (ffplay_proc playing) = Some None \<and>
   effect_log (stop (Joined TermOk TermOk) TermOk TermOk playing) = [CloseStdin 11, Terminate 11] \<and>
   effect_log (stop JoinTimedOut TermOk TermOk playing) = [CloseStdin 11, Terminate 11] \<and>
   Kill 11 \<notin> set (effect_log (stop (Joined TermOk TermOk) TermOk TermOk playing)) \<and>
   Kill 11 \<notin> set (effect_log (stop JoinTimedOut TermOk TermOk playing)) \<and>
   ffplay_proc (stop (Joined TermOk TermOk) TermOk TermOk playing) = None \<and>
   ffplay_proc (stop JoinTimedOut TermOk TermOk playing) = None"
  by (simp add: stop_def thread_exit_def playing_def init_controller_def Let_def
      kill_ffplay_def kill_ffmpeg_def kill_process_def put_update_def uq_full_def)

section \<open>The channel loops around a connection attempt\<close>

text \<open>What \<^verbatim>\<open>await websockets.connect(...)\<close> did.\<close>

datatype connect_result =
    Connected websocket
  | ConnInvalidURI
  | ConnRefused
  | ConnTimeout
  | ConnOSError string
  | ConnOther string

text \<open>
  \<^verbatim>\<open>_handle_text_websocket\<close>, from the head of the outer loop to the sleep: the
  \<^verbatim>\<open>while\<close> reads the flag.
\<close>

definition text_loop_head :: "controller \<Rightarrow> loop_ctl \<times> controller" where
  "text_loop_head c =
     (if \<not> app_running c then (Break, c\<lparr>text_ws_for_commands := None\<rparr>)
      else (Continue, c\<lparr>text_ws_for_commands := None\<rparr>))"

text \<open>
  After the sleep: \<^verbatim>\<open>if not self.app_running_event.is_set(): break\<close>, then the status
  and the call of \<^verbatim>\<open>websockets.connect\<close>, with nothing awaited in between.
\<close>

definition text_begin_attempt :: "controller \<Rightarrow> loop_ctl \<times> controller" where
  "text_begin_attempt c =
     (if \<not> app_running c then (Break, c\<lparr>text_ws_for_commands := None\<rparr>)
      else (Continue,
            (put_update ''status'' (PStr ''Connecting Text WS...'') c)
              \<lparr>effect_log := effect_log c @ [Connect (text_uri c)]\<rparr>))"

text \<open>The \<^verbatim>\<open>finally\<close> block of the metadata attempt.\<close>

definition text_cleanup :: "controller \<Rightarrow> controller" where
  "text_cleanup c =
     (let c1 = c\<lparr>text_ws_for_commands := None\<rparr>
      in if app_running c1
         then put_update ''status'' (PStr ''Text WS disconnected. Retrying...'') c1
         else c1)"

text \<open>
  The end of the connect call: on success the reference is stored and the receive loop
  follows; every failure runs its handler and the \<^verbatim>\<open>finally\<close> block. An invalid URI
  clears the flag and breaks the outer loop.
\<close>

definition text_connect_done :: "connect_result \<Rightarrow> controller \<Rightarrow> loop_ctl \<times> controller" where
  "text_connect_done r c =
     (case r of
        Connected ws \<Rightarrow>
          (Continue, put_update ''status'' (PStr ''Text WS connected.'')
                       (c\<lparr>text_ws_for_commands := Some ws\<rparr>))
      | ConnInvalidURI \<Rightarrow>
          (Break,
           text_cleanup
             ((put_update ''error'' (PStr (''Fatal: Invalid Text URI: '' @ text_uri c)) c)
                \<lparr>app_running := False\<rparr>))
      | ConnRefused \<Rightarrow>
          (Continue, text_cleanup (put_update ''status'' (PStr ''Text WS connection refused.'') c))
      | ConnTimeout \<Rightarrow>
          (Continue, text_cleanup (put_update ''status'' (PStr ''Text WS connection timeout.'') c))
      | ConnOSError e \<Rightarrow>
          (Continue, text_cleanup (put_update ''error'' (PStr (''Text WS OS Error: '' @ e)) c))
      | ConnOther e \<Rightarrow>
          (Continue, text_cleanup (put_update ''error'' (PStr (''Text WS Error: '' @ e)) c)))"

text \<open>
  \<^verbatim>\<open>_play_audio_stream\<close>, from the head of the outer loop to the sleep: the processes of
  the turn before are terminated.
\<close>

definition audio_loop_head :: "term_result \<Rightarrow> term_result \<Rightarrow> controller \<Rightarrow> loop_ctl \<times> controller" where
  "audio_loop_head t1 t2 c =
     (if \<not> app_running c then (Break, c)
      else (let c1 = (if \<not> is_restream_only c then kill_ffplay t1 c else c);
                c2 = (if stream_enabled c1 then kill_ffmpeg t2 c1 else c1)
            in (Continue, c2)))"

definition audio_begin_attempt :: "controller \<Rightarrow> loop_ctl \<times> controller" where
  "audio_begin_attempt c =
     (if \<not> app_running c then (Break, c)
      else (Continue,
            (put_update ''status'' (PStr ''Connecting Audio WS...'') c)
              \<lparr>effect_log := effect_log c @ [Connect (audio_uri c)]\<rparr>))"

text \<open>
  The end of the audio connect call. On success the status is put and the format request
  is sent (\<open>request_failed\<close> is the text of the exception if that send raised); then
  the processes are started (\<open>start_processes\<close>); the flag is not read again before
  that. The receive loop follows where \<open>attempt_ctl\<close> says so; the failures
  run their handler, and \<open>attempt_cleanup\<close> is the \<^verbatim>\<open>finally\<close> block of all of them.
\<close>

definition audio_connect_done ::
  "connect_result \<Rightarrow> string option \<Rightarrow> spawn_result \<Rightarrow> spawn_result \<Rightarrow> controller
     \<Rightarrow> attempt_ctl \<times> controller" where
  "audio_connect_done r request_failed ffplay_spawned ffmpeg_spawned c =
     (case r of
        Connected ws \<Rightarrow>
          (let c1 = put_update ''status'' (PStr ''Audio WS connected.'') c
           in case request_failed of
                None \<Rightarrow> start_processes ffplay_spawned ffmpeg_spawned c1
              | Some e \<Rightarrow>
                  (RetryConnection, put_update ''error'' (PStr (''Audio WS Setup Error: '' @ e)) c1))
      | ConnInvalidURI \<Rightarrow>
          (ReturnFromTask,
           (put_update ''error'' (PStr (''Fatal: Invalid Audio URI: '' @ audio_uri c)) c)
             \<lparr>app_running := False\<rparr>)
      | ConnRefused \<Rightarrow>
          (RetryConnection, put_update ''status'' (PStr ''Audio WS connection refused.'') c)
      | ConnTimeout \<Rightarrow>
          (RetryConnection, put_update ''status'' (PStr ''Audio WS connection timeout.'') c)
      | ConnOSError e \<Rightarrow>
          (RetryConnection, put_update ''error'' (PStr (''Audio WS OS Error (connect): '' @ e)) c)
      | ConnOther e \<Rightarrow>
          (RetryConnection, put_update ''error'' (PStr (''Audio WS Setup Error: '' @ e)) c))"

section \<open>The supervisor \<^verbatim>\<open>_main_async\<close>\<close>

datatype task_name = CmdListen | TxtWS | AudWS | AACRelay | StreamSrv

definition name_str :: "task_name \<Rightarrow> string" where
  "name_str n =
     (case n of CmdListen \<Rightarrow> ''CmdListen'' | TxtWS \<Rightarrow> ''TxtWS'' | AudWS \<Rightarrow> ''AudWS''
      | AACRelay \<Rightarrow> ''AACRelay'' | StreamSrv \<Rightarrow> ''StreamSrv'')"

text \<open>
  The exception of a failed task, as the supervisor looks at it: its class (what
  \<^verbatim>\<open>isinstance\<close> tests; \<^verbatim>\<open>FileNotFoundError\<close> is an \<^verbatim>\<open>OSError\<close>), the name of its type
  and its text.
\<close>

datatype exc_class = InvalidURI | FileNotFoundError | OSError | OtherException

record task_exc =
  exc_class :: exc_class
  exc_type :: string
  exc_str :: string

datatype task_outcome = Cancelled | Returned | Raised task_exc

text \<open>\<^verbatim>\<open>needle in haystack\<close> on strings\<close>

fun contains :: "string \<Rightarrow> string \<Rightarrow> bool" where
  "contains needle [] = (needle = [])"
| "contains needle (ch # rest) =
     (take (length needle) (ch # rest) = needle \<or> contains needle rest)"

text \<open>
  The body of \<^verbatim>\<open>for task in done\<close> for one task; \<open>pending\<close> are the tasks that were not
  done when the wait returned. \<open>Break\<close> is the \<^verbatim>\<open>break\<close> of the fatal branch. A restart
  adds the task to the set and is written to the log.
\<close>

definition restart_task :: "task_name \<Rightarrow> controller \<times> task_name list \<Rightarrow> controller \<times> task_name list" where
  "restart_task n st =
     ((fst st)\<lparr>effect_log := effect_log (fst st) @ [CreateTask (name_str n)]\<rparr>, snd st @ [n])"

definition handle_done_task ::
  "task_name list \<Rightarrow> task_name \<times> task_outcome \<Rightarrow> controller \<times> task_name list
     \<Rightarrow> loop_ctl \<times> controller \<times> task_name list" where
  "handle_done_task pending done st =
     (let c = fst st; tasks = remove1 (fst done) (snd st); task_name = fst done
      in case snd done of
           Cancelled \<Rightarrow> (Continue, c, tasks)
         | Returned \<Rightarrow> (Continue, c, tasks)
         | Raised exc \<Rightarrow>
             if task_name = StreamSrv
                \<and> (exc_class exc = OSError \<or> exc_class exc = FileNotFoundError)
                \<and> contains ''Address already in use'' (exc_str exc)
             then
               (let c1 = put_update ''stream_status''
                           (PStr (''Stream Err: Port '' @ str_of_int (stream_port c) @ '' in use'')) c;
                    c2 = put_update ''error''
                           (PStr (''Fatal: Port '' @ str_of_int (stream_port c)
                              @ '' already in use. Streaming disabled.'')) c1
                in (Continue, c2\<lparr>stream_enabled := False\<rparr>,
                    if AACRelay \<in> set pending then remove1 AACRelay tasks else tasks))
             else
               (let is_fatal =
                      ((exc_class exc = InvalidURI \<and> task_name \<noteq> StreamSrv)
                       \<or> (exc_class exc = FileNotFoundError
                          \<and> ((task_name = AudWS \<and> contains ''ffplay'' (exc_str exc)
                                \<and> \<not> is_restream_only c)
                             \<or> (task_name = AudWS \<and> contains ''ffmpeg'' (exc_str exc)
                                \<and> stream_enabled c))));
                    c1 = put_update ''error''
                           (PStr (''Task '' @ name_str task_name @ '' failed: '' @ exc_type exc
                              @ '': '' @ exc_str exc)) c
                in if is_fatal then
                     (Break,
                      (put_update ''error''
                         (PStr (''Fatal error in '' @ name_str task_name @ ''. Stopping.'')) c1)
                        \<lparr>app_running := False\<rparr>,
                      tasks)
                   else if app_running c1 then
                     (if task_name = TxtWS \<or> task_name = AudWS
                      then (Continue, restart_task task_name (c1, tasks))
                      else if task_name = AACRelay \<and> stream_enabled c1
                      then (Continue, restart_task task_name (c1, tasks))
                      else if task_name = StreamSrv
                      then (Continue,
                            put_update ''stream_status'' (PStr ''Stream: Server Failed'')
                              (c1\<lparr>stream_enabled := False\<rparr>),
                            tasks)
                      else (Continue, c1, tasks))
                   else (Continue, c1, tasks)))"

fun process_done ::
  "task_name list \<Rightarrow> (task_name \<times> task_outcome) list \<Rightarrow> controller \<times> task_name list
     \<Rightarrow> controller \<times> task_name list" where
  "process_done pending [] st = st"
| "process_done pending (d # ds) st =
     (case handle_done_task pending d st of
        (Break, st1) \<Rightarrow> st1
      | (Continue, st1) \<Rightarrow> process_done pending ds st1)"

text \<open>
  One turn of the monitoring loop after \<^verbatim>\<open>asyncio.wait\<close> returned \<open>done\<close> and
  \<open>pending\<close>: the flag is read before the completed tasks are looked at and again after.
\<close>

definition main_async_turn ::
  "(task_name \<times> task_outcome) list \<Rightarrow> task_name list \<Rightarrow> controller \<times> task_name list
     \<Rightarrow> loop_ctl \<times> controller \<times> task_name list" where
  "main_async_turn done pending st =
     (if \<not> app_running (fst st) then (Break, st)
      else if done = [] then (Continue, st)
      else (let st1 = process_done pending done st
            in if \<not> app_running (fst st1) then (Break, st1) else (Continue, st1)))"

text \<open>
  After the loop the remaining tasks are cancelled and awaited. Nothing here, and
  nothing in a task, calls \<^verbatim>\<open>loop.stop\<close>.
\<close>

definition main_async_finish :: "controller \<times> task_name list \<Rightarrow> controller \<times> task_name list" where
  "main_async_finish st = (fst st, [])"

section \<open>Runs of the controller\<close>

text \<open>
  A run is a sequence of events. \<open>ExternalClear\<close> is \<^verbatim>\<open>app_running.clear()\<close> by a front
  end or the signal handler, \<open>CallStop\<close> a call of \<^verbatim>\<open>stop\<close>; both come from other
  threads. Every other event is one stretch of code of a task, from one \<^verbatim>\<open>await\<close> to the
  next, with what the awaited call returned; tasks run on the loop of the controller
  thread, so these events happen only while the thread is alive. Events may come in any
  order: every execution of the code is among the runs.
\<close>

datatype event =
    ExternalClear
  | CallStop join_result term_result term_result
  | ThreadExit term_result term_result
  | MainAsyncTurn "(task_name \<times> task_outcome) list" "task_name list"
  | MainAsyncFinish
  | CommandTurn send_result
  | TextLoopHead
  | TextBeginAttempt
  | TextConnectDone connect_result
  | TextMessage "(pyerr \<times> string) + pyval"
  | AudioLoopHead term_result term_result
  | AudioBeginAttempt
  | AudioConnectDone connect_result "string option" spawn_result spawn_result
  | AudioCheck bool
  | AudioCleanup term_result term_result
  | RelayChunk string

fun thread_step :: "event \<Rightarrow> controller \<times> task_name list \<Rightarrow> controller \<times> task_name list" where
  "thread_step (ThreadExit t1 t2) (c, tasks) = (thread_exit t1 t2 c, tasks)"
| "thread_step (MainAsyncTurn done pending) (c, tasks) = snd (main_async_turn done pending (c, tasks))"
| "thread_step MainAsyncFinish (c, tasks) = main_async_finish (c, tasks)"
| "thread_step (CommandTurn sent) (c, tasks) = (snd (handle_gui_commands_step sent c), tasks)"
| "thread_step TextLoopHead (c, tasks) = (snd (text_loop_head c), tasks)"
| "thread_step TextBeginAttempt (c, tasks) = (snd (text_begin_attempt c), tasks)"
| "thread_step (TextConnectDone r) (c, tasks) = (snd (text_connect_done r c), tasks)"
| "thread_step (TextMessage loaded) (c, tasks) =
     (if app_running c then process_text_message loaded c else c, tasks)"
| "thread_step (AudioLoopHead t1 t2) (c, tasks) = (snd (audio_loop_head t1 t2 c), tasks)"
| "thread_step AudioBeginAttempt (c, tasks) = (snd (audio_begin_attempt c), tasks)"
| "thread_step (AudioConnectDone r rq p1 p2) (c, tasks) =
     (snd (audio_connect_done r rq p1 p2 c), tasks)"
| "thread_step (AudioCheck win32) (c, tasks) =
     (if app_running c then snd (check_processes win32 c) else c, tasks)"
| "thread_step (AudioCleanup t1 t2) (c, tasks) = (attempt_cleanup t1 t2 c, tasks)"
| "thread_step (RelayChunk chunk) (c, tasks) = (relay_chunk chunk c, tasks)"
| "thread_step ExternalClear st = st"
| "thread_step (CallStop j t1 t2) st = st"

fun step :: "event \<Rightarrow> controller \<times> task_name list \<Rightarrow> controller \<times> task_name list" where
  "step ExternalClear (c, tasks) = (c\<lparr>app_running := False\<rparr>, tasks)"
| "step (CallStop j t1 t2) (c, tasks) = (stop j t1 t2 c, tasks)"
| "step ev (c, tasks) = (if thread_alive c then thread_step ev (c, tasks) else (c, tasks))"

fun run :: "event list \<Rightarrow> controller \<times> task_name list \<Rightarrow> controller \<times> task_name list" where
  "run [] st = st"
| "run (ev # evs) st = run evs (step ev st)"

text \<open>How often \<^verbatim>\<open>closed\<close> has been put.\<close>

definition closed_count :: "controller \<Rightarrow> nat" where
  "closed_count c = length (filter (\<lambda>u. fst u = ''closed'') (updates c))"

text \<open>The restarts of tasks and the connection attempts in a log.\<close>

fun is_restart_or_connect :: "effect \<Rightarrow> bool" where
  "is_restart_or_connect (Connect uri) = True"
| "is_restart_or_connect (CreateTask n) = True"
| "is_restart_or_connect ev = False"

definition restarts_and_connects :: "controller \<Rightarrow> effect list" where
  "restarts_and_connects c = filter is_restart_or_connect (effect_log c)"

lemma closed_count_put_update:
  "t \<noteq> ''closed'' \<Longrightarrow> closed_count (put_update t d c) = closed_count c"
  by (simp add: closed_count_def updates_def put_update_def split: option.splits)

lemma closed_count_other_fields [simp]:
  "closed_count (c\<lparr>command_queue := cq\<rparr>) = closed_count c"
  "closed_count (c\<lparr>ws_send_calls := l\<rparr>) = closed_count c"
  "closed_count (c\<lparr>text_ws_for_commands := w\<rparr>) = closed_count c"
  "closed_count (c\<lparr>app_running := b\<rparr>) = closed_count c"
  "closed_count (c\<lparr>stream_enabled := b\<rparr>) = closed_count c"
  "closed_count (c\<lparr>ffplay_proc := p\<rparr>) = closed_count c"
  "closed_count (c\<lparr>ffmpeg_proc := p\<rparr>) = closed_count c"
  "closed_count (c\<lparr>aac_clients := qs\<rparr>) = closed_count c"
  "closed_count (c\<lparr>loop_stop_requested := b\<rparr>) = closed_count c"
  "closed_count (c\<lparr>loop_running := b\<rparr>) = closed_count c"
  "closed_count (c\<lparr>thread_alive := b\<rparr>) = closed_count c"
  "closed_count (c\<lparr>effect_log := l'\<rparr>) = closed_count c"
  "closed_count (kill_ffplay t c) = closed_count c"
  "closed_count (kill_ffmpeg t c) = closed_count c"
  by (simp_all add: closed_count_def)

lemma restarts_other_fields [simp]:
  "restarts_and_connects (c\<lparr>command_queue := cq\<rparr>) = restarts_and_connects c"
  "restarts_and_connects (c\<lparr>ws_send_calls := l\<rparr>) = restarts_and_connects c"
  "restarts_and_connects (c\<lparr>text_ws_for_commands := w\<rparr>) = restarts_and_connects c"
  "restarts_and_connects (c\<lparr>app_running := b\<rparr>) = restarts_and_connects c"
  "restarts_and_connects (c\<lparr>stream_enabled := b\<rparr>) = restarts_and_connects c"
  "restarts_and_connects (c\<lparr>ffplay_proc := p\<rparr>) = restarts_and_connects c"
  "restarts_and_connects (c\<lparr>ffmpeg_proc := p\<rparr>) = restarts_and_connects c"
  "restarts_and_connects (c\<lparr>aac_clients := qs\<rparr>) = restarts_and_connects c"
  "restarts_and_connects (c\<lparr>loop_stop_requested := b\<rparr>) = restarts_and_connects c"
  "restarts_and_connects (c\<lparr>loop_running := b\<rparr>) = restarts_and_connects c"
  "restarts_and_connects (c\<lparr>thread_alive := b\<rparr>) = restarts_and_connects c"
  "restarts_and_connects (put_update t d c) = restarts_and_connects c"
  by (simp_all add: restarts_and_connects_def)

lemma restarts_kill_process [simp]:
  "filter is_restart_or_connect (kill_process t pr lg) = filter is_restart_or_connect lg"
  by (cases pr) (simp_all add: kill_process_def split: term_result.splits bool.splits)

lemma restarts_kill [simp]:
  "restarts_and_connects (kill_ffplay t c) = restarts_and_connects c"
  "restarts_and_connects (kill_ffmpeg t c) = restarts_and_connects c"
  by (simp_all add: restarts_and_connects_def kill_ffplay_def kill_ffmpeg_def)

text \<open>
  \<open>inert c c'\<close>: the flag is clear in \<open>c'\<close>, and the stop request, the thread, the count
  of \<^verbatim>\<open>closed\<close> updates and the restarts and connection attempts are those of \<open>c\<close>.
\<close>

definition inert :: "controller \<Rightarrow> controller \<Rightarrow> bool" where
  "inert c c' =
     (\<not> app_running c' \<and> loop_stop_requested c' = loop_stop_requested c \<and>
      thread_alive c' = thread_alive c \<and> closed_count c' = closed_count c \<and>
      restarts_and_connects c' = restarts_and_connects c)"

lemma inert_refl: "\<not> app_running c \<Longrightarrow> inert c c"
  by (simp add: inert_def)

lemma inert_trans: "inert a b \<Longrightarrow> inert b c \<Longrightarrow> inert a c"
  by (simp add: inert_def)

lemma inert_handle_gui: "\<not> app_running c \<Longrightarrow> inert c (snd (handle_gui_commands_step sent c))"
  by (simp add: inert_def handle_gui_commands_step_def)

lemma inert_text_loop_head: "\<not> app_running c \<Longrightarrow> inert c (snd (text_loop_head c))"
  by (simp add: inert_def text_loop_head_def)

lemma inert_text_begin: "\<not> app_running c \<Longrightarrow> inert c (snd (text_begin_attempt c))"
  by (simp add: inert_def text_begin_attempt_def)

lemma inert_text_connect: "\<not> app_running c \<Longrightarrow> inert c (snd (text_connect_done r c))"
  by (cases r) (simp_all add: inert_def text_connect_done_def text_cleanup_def Let_def
      closed_count_put_update)

lemma inert_audio_loop_head: "\<not> app_running c \<Longrightarrow> inert c (snd (audio_loop_head t1 t2 c))"
  by (simp add: inert_def audio_loop_head_def)

lemma inert_audio_begin: "\<not> app_running c \<Longrightarrow> inert c (snd (audio_begin_attempt c))"
  by (simp add: inert_def audio_begin_attempt_def)

lemma spawn_not_restart [simp]:
  "restarts_and_connects (c\<lparr>effect_log := effect_log c @ [Spawn n]\<rparr>) = restarts_and_connects c"
  by (simp add: restarts_and_connects_def)

lemma inert_start_ffmpeg: "\<not> app_running c \<Longrightarrow> inert c (start_ffmpeg p c)"
  by (cases p) (simp_all add: inert_def start_ffmpeg_def Let_def closed_count_put_update
      restarts_and_connects_def kill_ffmpeg_def)

lemma inert_start_processes:
  "\<not> app_running c \<Longrightarrow> inert c (snd (start_processes p1 p2 c))"
proof -
  assume a: "\<not> app_running c"
  show ?thesis
  proof (cases "is_restream_only c")
    case True
    then show ?thesis
      using inert_start_ffmpeg [of "c\<lparr>ffplay_proc := None\<rparr>" p2] a
      by (simp add: start_processes_def Let_def inert_def)
  next
    case False
    let ?c3 = "kill_ffplay TermOk
      (put_update ''status'' (PStr ''Starting audio player (ffplay)...'') (c\<lparr>ffplay_proc := None\<rparr>))"
    have i3: "inert c ?c3" using a by (simp add: inert_def closed_count_put_update)
    show ?thesis
    proof (cases p1)
      case (Spawned p)
      let ?c4 = "?c3\<lparr>ffplay_proc := Some p, effect_log := effect_log ?c3 @ [Spawn (pid p)]\<rparr>"
      have "inert c ?c4" using i3 by (simp add: inert_def restarts_and_connects_def)
      moreover have "inert ?c4 (start_ffmpeg p2 ?c4)"
        using a by (intro inert_start_ffmpeg) simp
      ultimately have "inert c (start_ffmpeg p2 ?c4)" by (rule inert_trans)
      then show ?thesis using False Spawned by (simp add: start_processes_def Let_def)
    next
      case SpawnNotFound
      then show ?thesis using False i3
        by (simp add: start_processes_def Let_def inert_def closed_count_put_update)
    next
      case (SpawnFailed e)
      then show ?thesis using False i3
        by (simp add: start_processes_def Let_def inert_def closed_count_put_update)
    qed
  qed
qed

lemma inert_audio_connect:
  "\<not> app_running c \<Longrightarrow> inert c (snd (audio_connect_done r rq p1 p2 c))"
proof (cases r)
  case (Connected ws)
  assume a: "\<not> app_running c"
  let ?c1 = "put_update ''status'' (PStr ''Audio WS connected.'') c"
  have i1: "inert c ?c1" using a by (simp add: inert_def closed_count_put_update)
  show ?thesis
  proof (cases rq)
    case None
    have "inert ?c1 (snd (start_processes p1 p2 ?c1))"
      using a by (intro inert_start_processes) simp
    with i1 have "inert c (snd (start_processes p1 p2 ?c1))" by (rule inert_trans)
    then show ?thesis using Connected None by (simp add: audio_connect_done_def Let_def)
  next
    case (Some e)
    then show ?thesis using Connected i1
      by (simp add: audio_connect_done_def Let_def inert_def closed_count_put_update)
  qed
qed (simp_all add: audio_connect_done_def inert_def closed_count_put_update)

lemma inert_cleanup: "\<not> app_running c \<Longrightarrow> inert c (attempt_cleanup t1 t2 c)"
  by (simp add: inert_def attempt_cleanup_def Let_def)

lemma inert_handle_done:
  "\<not> app_running (fst st) \<Longrightarrow> inert (fst st) (fst (snd (handle_done_task pending d st)))"
  by (cases "snd d")
     (simp_all add: inert_def handle_done_task_def Let_def closed_count_put_update)

lemma tasks_handle_done:
  "\<not> app_running (fst st) \<Longrightarrow> set (snd (snd (handle_done_task pending d st))) \<subseteq> set (snd st)"
  by (cases "snd d")
     (auto simp: handle_done_task_def Let_def dest: notin_set_remove1 set_remove1_subset [THEN subsetD])

lemma main_async_turn_cleared:
  "\<not> app_running (fst st) \<Longrightarrow> main_async_turn done pending st = (Break, st)"
  by (simp add: main_async_turn_def)

lemma stop_cleared:
  "\<not> app_running c \<Longrightarrow> stop j t1 t2 c = kill_ffmpeg t2 (kill_ffplay t1 c)"
  by (simp add: stop_def)

lemma thread_exit_not_requested:
  "\<not> loop_stop_requested c \<Longrightarrow> thread_exit t1 t2 c = c"
  by (simp add: thread_exit_def)

lemma inert_relay: "\<not> app_running c \<Longrightarrow> inert c (relay_chunk chunk c)"
  by (simp add: inert_def relay_chunk_def)

text \<open>After the flag is cleared, a step whose thread exit is not due changes nothing
  that the shutdown looks at, and adds no task.\<close>

lemma step_inert:
  assumes "\<not> app_running (fst st)" "\<not> loop_stop_requested (fst st)"
  shows "inert (fst st) (fst (step ev st)) \<and> set (snd (step ev st)) \<subseteq> set (snd st)"
proof -
  obtain c tasks where st: "st = (c, tasks)" by (cases st)
  have a: "\<not> app_running c" "\<not> loop_stop_requested c" using assms st by simp_all
  show ?thesis
  proof (cases "thread_alive c")
    case False
    then show ?thesis using a st by (cases ev) (simp_all add: inert_def stop_cleared)
  next
    case True
    show ?thesis
      using a st True
      by (cases ev)
         (simp_all add: inert_refl stop_cleared thread_exit_not_requested main_async_turn_cleared
            main_async_finish_def inert_handle_gui inert_text_loop_head inert_text_begin
            inert_text_connect inert_audio_loop_head inert_audio_begin inert_audio_connect
            inert_cleanup inert_relay, simp_all add: inert_def)
  qed
qed

lemma quiet_thread_exit:
  "\<not> app_running c \<Longrightarrow>
     \<not> app_running (thread_exit t1 t2 c) \<and>
     restarts_and_connects (thread_exit t1 t2 c) = restarts_and_connects c"
  by (simp add: thread_exit_def Let_def)

lemma step_quiet:
  assumes "\<not> app_running (fst st)"
  shows "\<not> app_running (fst (step ev st)) \<and>
         restarts_and_connects (fst (step ev st)) = restarts_and_connects (fst st) \<and>
         set (snd (step ev st)) \<subseteq> set (snd st)"
proof (cases "loop_stop_requested (fst st)")
  case False
  from step_inert [OF assms False, of ev] show ?thesis by (simp add: inert_def)
next
  case True
  obtain c tasks where st: "st = (c, tasks)" by (cases st)
  have a: "\<not> app_running c" using assms st by simp
  show ?thesis
  proof (cases "thread_alive c")
    case False
    then show ?thesis using a st by (cases ev) (simp_all add: stop_cleared)
  next
    case alive: True
    have q: "\<And>c'. inert c c' \<Longrightarrow>
        \<not> app_running c' \<and> restarts_and_connects c' = restarts_and_connects c"
      by (simp add: inert_def)
    show ?thesis
      using a st alive
      by (cases ev)
         (simp_all add: stop_cleared quiet_thread_exit main_async_turn_cleared
            main_async_finish_def q [OF inert_handle_gui] q [OF inert_text_loop_head]
            q [OF inert_text_begin] q [OF inert_text_connect] q [OF inert_audio_loop_head]
            q [OF inert_audio_begin] q [OF inert_audio_connect] q [OF inert_cleanup]
            q [OF inert_relay])
  qed
qed

lemma run_quiet:
  assumes "\<not> app_running (fst st)"
  shows "\<not> app_running (fst (run evs st)) \<and>
         restarts_and_connects (fst (run evs st)) = restarts_and_connects (fst st) \<and>
         set (snd (run evs st)) \<subseteq> set (snd st)"
  using assms
proof (induction evs arbitrary: st)
  case Nil
  then show ?case by simp
next
  case (Cons ev evs)
  from step_quiet [OF Cons.prems, of ev]
  have s: "\<not> app_running (fst (step ev st))"
    "restarts_and_connects (fst (step ev st)) = restarts_and_connects (fst st)"
    "set (snd (step ev st)) \<subseteq> set (snd st)"
    by simp_all
  from Cons.IH [OF s(1)] s show ?case by auto
qed

lemma run_inert:
  assumes "\<not> app_running (fst st)" "\<not> loop_stop_requested (fst st)"
  shows "inert (fst st) (fst (run evs st))"
  using assms
proof (induction evs arbitrary: st)
  case Nil
  then show ?case by (simp add: inert_refl)
next
  case (Cons ev evs)
  from step_inert [OF Cons.prems, of ev] have i: "inert (fst st) (fst (step ev st))" by simp
  then have "\<not> app_running (fst (step ev st))" "\<not> loop_stop_requested (fst (step ev st))"
    using Cons.prems by (simp_all add: inert_def)
  from Cons.IH [OF this] i show ?case by (simp add: inert_trans)
qed

lemma cleanup_after_start:
  "ffplay_proc (attempt_cleanup t1 t2 (snd (start_processes (Spawned p) p2 c))) = None \<and>
   ffmpeg_proc (attempt_cleanup t1 t2 (snd (start_processes (Spawned p) p2 c))) = None"
  by (cases p2)
     (simp_all add: attempt_cleanup_def start_processes_def start_ffmpeg_def Let_def)

lemma effect_log_start_ffmpeg:
  "set (effect_log c) \<subseteq> set (effect_log (start_ffmpeg p2 c))"
  by (cases p2) (auto simp: start_ffmpeg_def Let_def kill_ffmpeg_def kill_process_def
      split: option.splits)

lemma ffplay_start_ffmpeg [simp]: "ffplay_proc (start_ffmpeg p2 c) = ffplay_proc c"
  "is_restream_only (start_ffmpeg p2 c) = is_restream_only c"
  by (cases p2; simp add: start_ffmpeg_def Let_def)+

lemma spawned_player_terminated:
  assumes "\<not> is_restream_only c" "returncode p = None"
  shows "Terminate (pid p)
     \<in> set (effect_log (attempt_cleanup t1 t2 (snd (start_processes (Spawned p) p2 c))))"
proof -
  let ?s = "snd (start_processes (Spawned p) p2 c)"
  have f: "ffplay_proc ?s = Some p" "\<not> is_restream_only ?s"
    using assms(1) by (simp_all add: start_processes_def Let_def)
  have "Terminate (pid p) \<in> set (effect_log (kill_ffplay t1 ?s))"
    using f assms(2) by (simp add: kill_ffplay_def kill_process_def)
  moreover have "set (effect_log (kill_ffplay t1 ?s))
      \<subseteq> set (effect_log (attempt_cleanup t1 t2 ?s))"
    using f by (auto simp: attempt_cleanup_def Let_def kill_ffmpeg_def kill_process_def
        split: option.splits)
  ultimately show ?thesis by blast
qed

lemma closed_count_put_closed:
  "unbounded_updates c \<Longrightarrow> closed_count (put_update ''closed'' PNone c) = closed_count c + 1"
  by (simp add: closed_count_def updates_put_update)

lemma stop_running_puts_closed_once:
  assumes "app_running c" "thread_alive c" "loop_running c" "unbounded_updates c"
  shows "closed_count (stop (Joined a b) t1 t2 c) = closed_count c + 1"
  using assms by (simp add: stop_def thread_exit_def Let_def closed_count_put_closed)

lemma handle_done_break:
  assumes "fst (handle_done_task pending d st) = Break"
  shows "\<not> app_running (fst (snd (handle_done_task pending d st))) \<and>
         set (snd (snd (handle_done_task pending d st))) \<subseteq> set (snd st)"
proof (cases "snd d")
  case Cancelled
  then show ?thesis using assms by (simp add: handle_done_task_def Let_def)
next
  case Returned
  then show ?thesis using assms by (simp add: handle_done_task_def Let_def)
next
  case (Raised exc)
  let ?c = "fst st"
  let ?port = "fst d = StreamSrv
      \<and> (exc_class exc = OSError \<or> exc_class exc = FileNotFoundError)
      \<and> contains ''Address already in use'' (exc_str exc)"
  let ?fatal = "(exc_class exc = InvalidURI \<and> fst d \<noteq> StreamSrv)
      \<or> (exc_class exc = FileNotFoundError
         \<and> ((fst d = AudWS \<and> contains ''ffplay'' (exc_str exc) \<and> \<not> is_restream_only ?c)
            \<or> (fst d = AudWS \<and> contains ''ffmpeg'' (exc_str exc) \<and> stream_enabled ?c)))"
  have np: "\<not> ?port"
  proof
    assume "?port"
    then have "fst (handle_done_task pending d st) = Continue"
      using Raised by (simp add: handle_done_task_def Let_def)
    with assms show False by simp
  qed
  have f: "?fatal"
  proof (rule ccontr)
    assume nf: "\<not> ?fatal"
    have "fst (handle_done_task pending d st) = Continue"
      unfolding handle_done_task_def Let_def using Raised np nf
      by (simp del: put_update_fields split del: if_split) (simp add: restart_task_def)
    with assms show False by simp
  qed
  have u: "handle_done_task pending d st
      = (Break,
         (put_update ''error'' (PStr (''Fatal error in '' @ name_str (fst d) @ ''. Stopping.''))
           (put_update ''error''
              (PStr (''Task '' @ name_str (fst d) @ '' failed: '' @ exc_type exc
                 @ '': '' @ exc_str exc)) ?c))\<lparr>app_running := False\<rparr>,
         remove1 (fst d) (snd st))"
    unfolding handle_done_task_def Let_def
    by (simp only: Raised task_outcome.case if_not_P [OF np] if_P [OF f])
  show ?thesis unfolding u using set_remove1_subset [of "fst d" "snd st"] by simp
qed

text \<open>
  A controller just started, with its three tasks, and the player that an audio
  connection attempt starts.
\<close>

definition started :: "controller \<times> task_name list" where
  "started =
     (init_controller ''ws://h/audio'' ''ws://h/text'' []
        (Some \<lparr>uq_items = [], uq_maxsize = 0\<rparr>) False False False,
      [CmdListen, TxtWS, AudWS])"

definition player :: proc where
  "player = \<lparr>pid = 11, returncode = None, stdin_closing = False\<rparr>"

definition audio_socket :: websocket where
  "audio_socket = \<lparr>ws_id = 2, close_code = None\<rparr>"

lemmas run_eval = started_def player_def audio_socket_def init_controller_def
  audio_begin_attempt_def audio_connect_done_def start_processes_def start_ffmpeg_def
  kill_ffplay_def kill_ffmpeg_def kill_process_def put_update_def uq_full_def Let_def

text \<open>
  C9, as stated, fails on its last clause: the audio loop reads the flag before it
  connects and not again before it starts its processes. When the flag is cleared while
  the connect is awaited (here by a front end or the signal handler) and the connect
  then returns, \<^verbatim>\<open>ffplay\<close> is spawned after shutdown was entered.
\<close>

theorem process_spawned_after_flag_cleared:
  "\<not> app_running (fst (run [AudioBeginAttempt, ExternalClear] started)) \<and>
   effect_log (fst (run [AudioBeginAttempt, ExternalClear] started)) = [Connect ''ws://h/audio''] \<and>
   effect_log (fst (run [AudioBeginAttempt, ExternalClear,
       AudioConnectDone (Connected audio_socket) None (Spawned player) SpawnNotFound] started))
     = [Connect ''ws://h/audio'', Spawn 11]"
  by (simp add: run_eval)

text \<open>
  C9, amended. Global shutdown is one-way: once the running flag is cleared (by
  \<^verbatim>\<open>stop\<close>, by a fatal classification or from outside), in every run that follows it is
  never set again, the supervisor restarts no task and adds none (its turn breaks at
  once), and no channel loop starts a connection attempt: each loop leaves at its next
  reading of the flag. A connection attempt of the audio channel that had passed its
  flag check before the flag was cleared still starts its processes when the connect
  returns; the cleanup of that attempt terminates a player so started and clears both
  handles.
\<close>

theorem shutdown_is_one_way:
  "(\<forall>evs st. \<not> app_running (fst st) \<longrightarrow>
      \<not> app_running (fst (run evs st)) \<and>
      restarts_and_connects (fst (run evs st)) = restarts_and_connects (fst st) \<and>
      set (snd (run evs st)) \<subseteq> set (snd st)) \<and>
   (\<forall>done pending st. \<not> app_running (fst st) \<longrightarrow>
      main_async_turn done pending st = (Break, st)) \<and>
   (\<forall>c t1 t2. \<not> app_running c \<longrightarrow>
      fst (text_loop_head c) = Break \<and> fst (text_begin_attempt c) = Break \<and>
      fst (audio_loop_head t1 t2 c) = Break \<and> fst (audio_begin_attempt c) = Break) \<and>
   (\<forall>j t1 t2 c. \<not> app_running (stop j t1 t2 c)) \<and>
   (\<forall>pending d st. fst (handle_done_task pending d st) = Break \<longrightarrow>
      \<not> app_running (fst (snd (handle_done_task pending d st))) \<and>
      set (snd (snd (handle_done_task pending d st))) \<subseteq> set (snd st)) \<and>
   (\<forall>c p p2 t1 t2. \<not> is_restream_only c \<and> returncode p = None \<longrightarrow>
      Terminate (pid p)
        \<in> set (effect_log (attempt_cleanup t1 t2 (snd (start_processes (Spawned p) p2 c)))) \<and>
      ffplay_proc (attempt_cleanup t1 t2 (snd (start_processes (Spawned p) p2 c))) = None \<and>
      ffmpeg_proc (attempt_cleanup t1 t2 (snd (start_processes (Spawned p) p2 c))) = None)"
proof (intro conjI allI impI)
  fix evs and st :: "controller \<times> task_name list"
  assume a: "\<not> app_running (fst st)"
  from run_quiet [OF a, of evs]
  show "\<not> app_running (fst (run evs st))"
    "restarts_and_connects (fst (run evs st)) = restarts_and_connects (fst st)"
    "set (snd (run evs st)) \<subseteq> set (snd st)"
    by simp_all
next
  fix "done" pending and st :: "controller \<times> task_name list"
  assume "\<not> app_running (fst st)"
  then show "main_async_turn done pending st = (Break, st)" by (rule main_async_turn_cleared)
next
  fix c :: controller and t1 t2
  assume a: "\<not> app_running c"
  show "fst (text_loop_head c) = Break" using a by (simp add: text_loop_head_def)
  show "fst (text_begin_attempt c) = Break" using a by (simp add: text_begin_attempt_def)
  show "fst (audio_loop_head t1 t2 c) = Break" using a by (simp add: audio_loop_head_def)
  show "fst (audio_begin_attempt c) = Break" using a by (simp add: audio_begin_attempt_def)
next
  fix j t1 t2 and c :: controller
  show "\<not> app_running (stop j t1 t2 c)"
    by (cases j) (simp_all add: stop_def thread_exit_def Let_def)
next
  fix pending d and st :: "controller \<times> task_name list"
  assume b: "fst (handle_done_task pending d st) = Break"
  from handle_done_break [OF b]
  show "\<not> app_running (fst (snd (handle_done_task pending d st)))"
    "set (snd (snd (handle_done_task pending d st))) \<subseteq> set (snd st)"
    by simp_all
next
  fix c :: controller and p :: proc and p2 t1 t2
  assume a: "\<not> is_restream_only c \<and> returncode p = None"
  then show "Terminate (pid p)
      \<in> set (effect_log (attempt_cleanup t1 t2 (snd (start_processes (Spawned p) p2 c))))"
    by (simp add: spawned_player_terminated)
  show "ffplay_proc (attempt_cleanup t1 t2 (snd (start_processes (Spawned p) p2 c))) = None"
    "ffmpeg_proc (attempt_cleanup t1 t2 (snd (start_processes (Spawned p) p2 c))) = None"
    using cleanup_after_start by simp_all
qed

text \<open>
  A run after a flag cleared from outside: the metadata task fails, the supervisor takes
  its turn, both channel loops come to their flag checks.
\<close>

definition after_clear :: "event list" where
  "after_clear =
     [MainAsyncTurn [(TxtWS, Raised \<lparr>exc_class = OSError, exc_type = ''OSError'',
                                   exc_str = ''Network is unreachable''\<rparr>)] [CmdListen, AudWS],
      TextLoopHead, AudioLoopHead TermOk TermOk, AudioBeginAttempt, MainAsyncFinish]"

theorem shutdown_is_one_way_witness:
  "\<not> app_running (fst (step ExternalClear started)) \<and>
   \<not> app_running (fst (run after_clear (step ExternalClear started))) \<and>
   restarts_and_connects (fst (run after_clear (step ExternalClear started))) = [] \<and>
   set (snd (run after_clear (step ExternalClear started))) \<subseteq> {CmdListen, TxtWS, AudWS} \<and>
   main_async_turn [(TxtWS, Returned)] [CmdListen, AudWS] (step ExternalClear started)
     = (Break, step ExternalClear started) \<and>
   fst (audio_begin_attempt (fst (step ExternalClear started))) = Break \<and>
   \<not> is_restream_only (fst started) \<and> returncode player = None \<and>
   Terminate 11 \<in> set (effect_log (attempt_cleanup TermOk TermOk
       (snd (start_processes (Spawned player) SpawnNotFound (fst started)))))"
proof -
  let ?st = "step ExternalClear started"
  have c: "\<not> app_running (fst ?st)" by (simp add: started_def)
  have r: "restarts_and_connects (fst ?st) = []" "snd ?st = [CmdListen, TxtWS, AudWS]"
    by (simp_all add: started_def init_controller_def restarts_and_connects_def)
  have p: "\<not> is_restream_only (fst started)" "returncode player = None" "pid player = 11"
    by (simp_all add: started_def init_controller_def player_def)
  note t = shutdown_is_one_way
  have 1: "\<not> app_running (fst (run after_clear ?st)) \<and>
      restarts_and_connects (fst (run after_clear ?st)) = restarts_and_connects (fst ?st) \<and>
      set (snd (run after_clear ?st)) \<subseteq> set (snd ?st)"
    using t [THEN conjunct1, rule_format, of ?st after_clear] c by blast
  have 2: "main_async_turn [(TxtWS, Returned)] [CmdListen, AudWS] ?st = (Break, ?st)"
    using t [THEN conjunct2, THEN conjunct1, rule_format, of ?st] c by blast
  have 3: "fst (audio_begin_attempt (fst ?st)) = Break"
    using t [THEN conjunct2, THEN conjunct2, THEN conjunct1, rule_format, of "fst ?st"] c by blast
  have 4: "Terminate (pid player) \<in> set (effect_log (attempt_cleanup TermOk TermOk
       (snd (start_processes (Spawned player) SpawnNotFound (fst started)))))"
    using t [THEN conjunct2, THEN conjunct2, THEN conjunct2, THEN conjunct2, THEN conjunct2,
        rule_format, of "fst started" player TermOk TermOk SpawnNotFound] p by blast
  show ?thesis using c 1 2 3 4 r p by simp
qed

lemma run_after_invalid_uri:
  assumes "\<not> app_running c1" "\<not> loop_stop_requested c1" "thread_alive c1"
  shows "closed_count (fst (run evs (c1, tasks))) = closed_count c1 \<and>
         thread_alive (fst (run evs (c1, tasks))) \<and>
         \<not> loop_stop_requested (fst (run evs (c1, tasks))) \<and>
         restarts_and_connects (fst (run evs (c1, tasks))) = restarts_and_connects c1"
  using run_inert [of "(c1, tasks)" evs] assms by (simp add: inert_def)

lemma text_invalid_uri_state:
  "fst (text_connect_done ConnInvalidURI c) = Break \<and>
   \<not> app_running (snd (text_connect_done ConnInvalidURI c)) \<and>
   loop_stop_requested (snd (text_connect_done ConnInvalidURI c)) = loop_stop_requested c \<and>
   thread_alive (snd (text_connect_done ConnInvalidURI c)) = thread_alive c \<and>
   closed_count (snd (text_connect_done ConnInvalidURI c)) = closed_count c \<and>
   restarts_and_connects (snd (text_connect_done ConnInvalidURI c)) = restarts_and_connects c"
  by (simp add: text_connect_done_def text_cleanup_def Let_def closed_count_put_update)

lemma audio_invalid_uri_state:
  "fst (audio_connect_done ConnInvalidURI rq p1 p2 c) = ReturnFromTask \<and>
   \<not> app_running (snd (audio_connect_done ConnInvalidURI rq p1 p2 c)) \<and>
   loop_stop_requested (snd (audio_connect_done ConnInvalidURI rq p1 p2 c)) = loop_stop_requested c \<and>
   thread_alive (snd (audio_connect_done ConnInvalidURI rq p1 p2 c)) = thread_alive c \<and>
   closed_count (snd (audio_connect_done ConnInvalidURI rq p1 p2 c)) = closed_count c \<and>
   restarts_and_connects (snd (audio_connect_done ConnInvalidURI rq p1 p2 c))
     = restarts_and_connects c"
  by (simp add: audio_connect_done_def closed_count_put_update)

text \<open>
  C5, on the code. A malformed URI makes the connect call of a channel raise
  \<^verbatim>\<open>InvalidURI\<close>: the handler clears the running flag and leaves the channel loop, and
  in every run that follows no connection is attempted and no task restarted. But
  \<^verbatim>\<open>closed\<close> is put only at the end of the controller thread, which is reached only
  after \<^verbatim>\<open>loop.stop\<close>, and \<^verbatim>\<open>loop.stop\<close> is scheduled only by a \<^verbatim>\<open>stop\<close> that finds
  the flag still set. So after the handler, whatever follows (turns of the supervisor,
  calls of \<^verbatim>\<open>stop\<close>, the thread's exit if it were due), the stop of the loop is never
  requested, the thread stays alive in \<^verbatim>\<open>run_forever\<close>, and \<^verbatim>\<open>closed\<close> is never put: it is
  emitted not once but never.
\<close>

theorem invalid_uri_shuts_down_but_never_closes:
  "(\<forall>c. fst (text_connect_done ConnInvalidURI c) = Break \<and>
        \<not> app_running (snd (text_connect_done ConnInvalidURI c))) \<and>
   (\<forall>c rq p1 p2. fst (audio_connect_done ConnInvalidURI rq p1 p2 c) = ReturnFromTask \<and>
        \<not> app_running (snd (audio_connect_done ConnInvalidURI rq p1 p2 c))) \<and>
   (\<forall>evs c tasks. thread_alive c \<and> \<not> loop_stop_requested c \<longrightarrow>
      closed_count (fst (run evs (step (TextConnectDone ConnInvalidURI) (c, tasks))))
        = closed_count c \<and>
      thread_alive (fst (run evs (step (TextConnectDone ConnInvalidURI) (c, tasks)))) \<and>
      \<not> loop_stop_requested (fst (run evs (step (TextConnectDone ConnInvalidURI) (c, tasks)))) \<and>
      restarts_and_connects (fst (run evs (step (TextConnectDone ConnInvalidURI) (c, tasks))))
        = restarts_and_connects c) \<and>
   (\<forall>evs c tasks rq p1 p2. thread_alive c \<and> \<not> loop_stop_requested c \<longrightarrow>
      closed_count (fst (run evs (step (AudioConnectDone ConnInvalidURI rq p1 p2) (c, tasks))))
        = closed_count c \<and>
      thread_alive (fst (run evs (step (AudioConnectDone ConnInvalidURI rq p1 p2) (c, tasks)))) \<and>
      \<not> loop_stop_requested
          (fst (run evs (step (AudioConnectDone ConnInvalidURI rq p1 p2) (c, tasks)))) \<and>
      restarts_and_connects (fst (run evs (step (AudioConnectDone ConnInvalidURI rq p1 p2) (c, tasks))))
        = restarts_and_connects c)"
proof (intro conjI allI impI)
  fix c :: controller
  show "fst (text_connect_done ConnInvalidURI c) = Break"
    "\<not> app_running (snd (text_connect_done ConnInvalidURI c))"
    using text_invalid_uri_state [of c] by simp_all
next
  fix c :: controller and rq p1 p2
  show "fst (audio_connect_done ConnInvalidURI rq p1 p2 c) = ReturnFromTask"
    "\<not> app_running (snd (audio_connect_done ConnInvalidURI rq p1 p2 c))"
    using audio_invalid_uri_state [of rq p1 p2 c] by simp_all
next
  fix evs and c :: controller and tasks :: "task_name list"
  assume a: "thread_alive c \<and> \<not> loop_stop_requested c"
  let ?c1 = "snd (text_connect_done ConnInvalidURI c)"
  have s: "step (TextConnectDone ConnInvalidURI) (c, tasks) = (?c1, tasks)" using a by simp
  have "\<not> app_running ?c1" "\<not> loop_stop_requested ?c1" "thread_alive ?c1"
    using a text_invalid_uri_state [of c] by simp_all
  from run_after_invalid_uri [OF this, of evs tasks] text_invalid_uri_state [of c]
  show "closed_count (fst (run evs (step (TextConnectDone ConnInvalidURI) (c, tasks))))
        = closed_count c"
    "thread_alive (fst (run evs (step (TextConnectDone ConnInvalidURI) (c, tasks))))"
    "\<not> loop_stop_requested (fst (run evs (step (TextConnectDone ConnInvalidURI) (c, tasks))))"
    "restarts_and_connects (fst (run evs (step (TextConnectDone ConnInvalidURI) (c, tasks))))
        = restarts_and_connects c"
    unfolding s by simp_all
next
  fix evs and c :: controller and tasks :: "task_name list" and rq p1 p2
  assume a: "thread_alive c \<and> \<not> loop_stop_requested c"
  let ?c1 = "snd (audio_connect_done ConnInvalidURI rq p1 p2 c)"
  have s: "step (AudioConnectDone ConnInvalidURI rq p1 p2) (c, tasks) = (?c1, tasks)"
    using a by simp
  have "\<not> app_running ?c1" "\<not> loop_stop_requested ?c1" "thread_alive ?c1"
    using a audio_invalid_uri_state [of rq p1 p2 c] by simp_all
  from run_after_invalid_uri [OF this, of evs tasks] audio_invalid_uri_state [of rq p1 p2 c]
  show "closed_count (fst (run evs (step (AudioConnectDone ConnInvalidURI rq p1 p2) (c, tasks))))
        = closed_count c"
    "thread_alive (fst (run evs (step (AudioConnectDone ConnInvalidURI rq p1 p2) (c, tasks))))"
    "\<not> loop_stop_requested
        (fst (run evs (step (AudioConnectDone ConnInvalidURI rq p1 p2) (c, tasks))))"
    "restarts_and_connects (fst (run evs (step (AudioConnectDone ConnInvalidURI rq p1 p2) (c, tasks))))
        = restarts_and_connects c"
    unfolding s by simp_all
qed

text \<open>
  A run after the handler: the supervisor sees the flag cleared and ends, \<^verbatim>\<open>stop\<close> is
  called and joins, and the thread would exit if its loop had been stopped.
\<close>

definition after_invalid_uri :: "event list" where
  "after_invalid_uri =
     [MainAsyncTurn [(TxtWS, Returned)] [CmdListen, AudWS], MainAsyncFinish,
      CallStop (Joined TermOk TermOk) TermOk TermOk, ThreadExit TermOk TermOk]"

theorem invalid_uri_shuts_down_but_never_closes_witness:
  "thread_alive (fst started) \<and> \<not> loop_stop_requested (fst started) \<and>
   closed_count (fst started) = 0 \<and>
   closed_count (fst (run after_invalid_uri
       (step (TextConnectDone ConnInvalidURI) (fst started, snd started)))) = 0 \<and>
   thread_alive (fst (run after_invalid_uri
       (step (TextConnectDone ConnInvalidURI) (fst started, snd started)))) \<and>
   restarts_and_connects (fst (run after_invalid_uri
       (step (TextConnectDone ConnInvalidURI) (fst started, snd started)))) = []"
proof -
  have a: "thread_alive (fst started)" "\<not> loop_stop_requested (fst started)"
    by (simp_all add: started_def init_controller_def)
  have z: "closed_count (fst started) = 0" "restarts_and_connects (fst started) = []"
    by (simp_all add: started_def init_controller_def closed_count_def updates_def
        restarts_and_connects_def)
  from invalid_uri_shuts_down_but_never_closes [THEN conjunct2, THEN conjunct2, THEN conjunct1,
      rule_format, of "fst started" after_invalid_uri "snd started"] a z
  show ?thesis by simp
qed

end
